theory Spec2Isabelle
  imports Complex_Main
begin

section \<open>Python values and string helpers\<close>

text \<open>
  The application is a Streamlit script (\<^verbatim>\<open>src/jacaremp.py\<close>) over a PostgreSQL
  database. Python \<^verbatim>\<open>float\<close> values (prices, costs, subtotals) are modelled as exact
  rationals, Python \<^verbatim>\<open>int\<close> as \<^typ>\<open>int\<close>, and \<^verbatim>\<open>str\<close> as byte strings.
  Each handler of the script is a function from the state before the request to the state
  after it and the outcome; requests are run one at a time. The exceptions that the script
  can meet are values of the type \<open>error\<close>.
\<close>

datatype error =
    OperationalError
  | DatabaseError
  | KeyError
  | TypeError
  | IndexError
  | AttributeError
  | NameError
  | StopException
  | StreamlitAPIException
  | ValueError

definition py_whitespace :: string where
  "py_whitespace = [CHR 9, CHR 10, CHR 11, CHR 12, CHR 13, CHR 28, CHR 29, CHR 30, CHR 31, CHR 32]"

definition is_space :: "char \<Rightarrow> bool" where
  "is_space c = (c \<in> set py_whitespace)"

text \<open>\<^verbatim>\<open>str.strip()\<close>: leading and trailing whitespace removed.\<close>

definition py_strip :: "string \<Rightarrow> string" where
  "py_strip s = rev (dropWhile is_space (rev (dropWhile is_space s)))"

definition lower_letters :: string where
  "lower_letters = ''abcdefghijklmnopqrstuvwxyz''"

definition upper_letters :: string where
  "upper_letters = ''ABCDEFGHIJKLMNOPQRSTUVWXYZ''"

definition upper_char :: "char \<Rightarrow> char" where
  "upper_char c = (case map_of (zip lower_letters upper_letters) c of Some u \<Rightarrow> u | None \<Rightarrow> c)"

text \<open>\<^verbatim>\<open>str.upper()\<close> on the ASCII letters; other bytes are kept.\<close>

definition py_upper :: "string \<Rightarrow> string" where
  "py_upper s = map upper_char s"

text \<open>\<^verbatim>\<open>s.startswith(p)\<close> and \<^verbatim>\<open>s.startswith((p1, p2, ...))\<close>.\<close>

definition startswith :: "string \<Rightarrow> string \<Rightarrow> bool" where
  "startswith s p = (take (length p) s = p)"

definition startswith_any :: "string \<Rightarrow> string list \<Rightarrow> bool" where
  "startswith_any s ps = list_ex (startswith s) ps"

text \<open>\<^verbatim>\<open>s.ljust(n)\<close>, \<^verbatim>\<open>s.rjust(n)\<close> (padding with spaces) and \<^verbatim>\<open>s[:n]\<close>.\<close>

definition ljust :: "nat \<Rightarrow> string \<Rightarrow> string" where
  "ljust n s = s @ replicate (n - length s) (CHR '' '')"

definition rjust :: "nat \<Rightarrow> string \<Rightarrow> string" where
  "rjust n s = replicate (n - length s) (CHR '' '') @ s"

fun digits :: "nat \<Rightarrow> string" where
  "digits n = (if n < 10 then [''0123456789'' ! n]
               else digits (n div 10) @ [''0123456789'' ! (n mod 10)])"

declare digits.simps [simp del]

text \<open>
  Rounding of an exact value to the nearest integer, ties to the even one: what
  \<^verbatim>\<open>round(x, n)\<close> and the \<^verbatim>\<open>.nf\<close> format do with the value they are given.
\<close>

definition round_half_even :: "rat \<Rightarrow> int" where
  "round_half_even x =
     (let f = \<lfloor>x\<rfloor>; d = x - of_int f
      in if d < 1 / 2 then f
         else if 1 / 2 < d then f + 1
         else if even f then f else f + 1)"

text \<open>\<^verbatim>\<open>round(x, 4)\<close>.\<close>

definition py_round4 :: "rat \<Rightarrow> rat" where
  "py_round4 x = of_int (round_half_even (x * 10000)) / 10000"

text \<open>\<^verbatim>\<open>f"{x:.kf}"\<close>: sign, integer part, and \<open>k\<close> decimals.\<close>

definition fmt_f :: "nat \<Rightarrow> rat \<Rightarrow> string" where
  "fmt_f k x =
     (let n = nat (round_half_even (\<bar>x\<bar> * 10 ^ k));
          ip = digits (n div 10 ^ k);
          fp = digits (n mod 10 ^ k)
      in (if x < 0 then ''-'' else '''') @ ip @
         (if k = 0 then '''' else ''.'' @ replicate (k - length fp) (CHR ''0'') @ fp))"

text \<open>\<^verbatim>\<open>str(v)\<close> of a value that may be \<^verbatim>\<open>None\<close>.\<close>

definition str_opt :: "string option \<Rightarrow> string" where
  "str_opt v = (case v of None \<Rightarrow> ''None'' | Some s \<Rightarrow> s)"

section \<open>The database\<close>

datatype status = Pendente | Concluido | Cancelado

type_synonym date = "nat \<times> nat \<times> nat"

text \<open>
  A value of the column \<^verbatim>\<open>data_pedido\<close> as the driver returns it: a
  \<^verbatim>\<open>datetime\<close> (year, month, day, hour, minute, second) or any other value, kept
  as its \<^verbatim>\<open>str()\<close>.
\<close>

datatype data_value =
    Datetime nat nat nat nat nat nat
  | OtherValue string

record cliente =
  c_cliente_id :: nat
  c_nome :: string
  c_cpf_cnpj :: "string option"

record produto =
  p_produto_id :: nat
  p_codigo_sku :: string
  p_descricao :: string
  p_preco_custo :: rat
  p_preco_venda :: rat
  p_estoque_atual :: int

record entrada =
  e_produto_id :: nat
  e_fornecedor_id :: nat
  e_data_recebimento :: date
  e_emissao :: date
  e_quantidade_comprada :: int
  e_valor_unitario_compra :: rat
  e_numero_nota_fiscal :: string

record pedido =
  o_pedido_id :: nat
  o_cliente_id :: nat
  o_data_pedido :: data_value
  o_valor_total :: rat
  o_status_pedido :: status
  o_forma_pagamento :: "string option"

record venda =
  v_pedido_id :: nat
  v_produto_id :: nat
  v_quantidade :: int
  v_preco_unitario :: rat
  v_subtotal :: rat
  v_desconto :: rat

record devolucao =
  d_pedido_id :: nat
  d_produto_id :: nat
  d_quantidade :: int
  d_estado_produto :: string
  d_retornou_estoque :: bool
  d_motivo :: string
  d_data_devolucao :: date

text \<open>A line of the cart kept in \<^verbatim>\<open>st.session_state.vendas\<close>.\<close>

record item =
  i_produto_id :: nat
  i_produto_nome :: string
  i_quantidade :: int
  i_preco_unit_original :: rat
  i_desconto_perc :: rat
  i_preco_unit :: rat
  i_subtotal :: rat

record database =
  clientes :: "cliente list"
  produtos :: "produto list"
  entradas :: "entrada list"
  pedidos :: "pedido list"
  vendas :: "venda list"
  devolucoes :: "devolucao list"

section \<open>The persistence gateway\<close>

text \<open>
  The state of the application between two statements: the committed database, whether
  \<^verbatim>\<open>st.cache_resource\<close> holds the connection of \<^verbatim>\<open>get_db_connection_cached\<close>,
  the cart of the session, and a counter of the gateway calls made so far. The environment
  is a function that tells, for each gateway call, the exception it raises, if any.
\<close>

record world =
  db :: database
  conn_cached :: bool
  session_vendas :: "item list"
  tick :: nat

type_synonym faults = "nat \<Rightarrow> error option"

definition no_faults :: faults where
  "no_faults n = None"

definition next_tick :: "world \<Rightarrow> world" where
  "next_tick w = w\<lparr>tick := Suc (tick w)\<rparr>"

text \<open>
  \<^verbatim>\<open>get_db_connection_cached\<close>: the cached connection when there is one; otherwise it
  connects, and on a failure calls \<^verbatim>\<open>st.stop()\<close>, which ends the script run and
  caches nothing.
\<close>

definition get_db_connection_cached :: "faults \<Rightarrow> world \<Rightarrow> world \<times> (error + unit)" where
  "get_db_connection_cached flt w =
     (if conn_cached w then (w, Inr ())
      else (case flt (tick w) of
              Some e \<Rightarrow> (next_tick w, Inl StopException)
            | None \<Rightarrow> ((next_tick w)\<lparr>conn_cached := True\<rparr>, Inr ())))"

text \<open>\<^verbatim>\<open>get_db_connection_cached.clear()\<close>.\<close>

definition clear_cache :: "world \<Rightarrow> world" where
  "clear_cache w = w\<lparr>conn_cached := False\<rparr>"

datatype 'r query_result = QNone | QTrue | QRows "'r list"

text \<open>
  The test \<^verbatim>\<open>sql.strip().upper().startswith(("INSERT", "UPDATE", "DELETE"))\<close> of
  \<^verbatim>\<open>execute_query\<close>.
\<close>

definition is_write :: "string \<Rightarrow> bool" where
  "is_write sql = startswith_any (py_upper (py_strip sql)) [''INSERT'', ''UPDATE'', ''DELETE'']"

text \<open>
  \<^verbatim>\<open>execute_query(sql, params, fetch)\<close>. The text of the statement decides whether the
  function commits and clears the cache; what the statement does to the tables and the rows
  it returns are given by \<open>sem\<close>. A statement that is not committed leaves the
  committed database as it was. Only \<^verbatim>\<open>OperationalError\<close> is caught.
\<close>

definition execute_query ::
  "faults \<Rightarrow> string \<Rightarrow> (database \<Rightarrow> database \<times> 'r list) \<Rightarrow> bool \<Rightarrow> world
     \<Rightarrow> world \<times> (error + 'r query_result)" where
  "execute_query flt sql sem fetch w =
     (case get_db_connection_cached flt w of
        (w1, Inl e) \<Rightarrow> (w1, Inl e)
      | (w1, Inr u) \<Rightarrow>
          (case flt (tick w1) of
             Some OperationalError \<Rightarrow> (next_tick w1, Inr QNone)
           | Some e \<Rightarrow> (next_tick w1, Inl e)
           | None \<Rightarrow>
               (let w2 = next_tick w1; (d', rows) = sem (db w2)
                in if is_write sql
                   then
                     (let w3 = w2\<lparr>db := d'\<rparr>
                      in (if startswith (py_upper (py_strip sql)) ''INSERT INTO Produtos''
                          then clear_cache w3 else w3, Inr QTrue))
                   else if fetch then (w2, Inr (QRows rows))
                   else (w2, Inr QTrue))))"

text \<open>
  A transaction on a connection of its own (\<^verbatim>\<open>get_db_connection_new\<close>): the working
  copy of the tables and the gateway counter. \<^verbatim>\<open>cursor.execute\<close> raises what the
  environment says, or applies the statement to the working copy.
\<close>

type_synonym tx = "database \<times> nat"

definition cursor_execute :: "faults \<Rightarrow> (database \<Rightarrow> database) \<Rightarrow> tx \<Rightarrow> error + tx" where
  "cursor_execute flt stmt t =
     (case flt (snd t) of
        Some e \<Rightarrow> Inl e
      | None \<Rightarrow> Inr (stmt (fst t), Suc (snd t)))"

text \<open>\<^verbatim>\<open>conn.commit()\<close> is one more gateway call.\<close>

definition conn_commit :: "faults \<Rightarrow> tx \<Rightarrow> error + tx" where
  "conn_commit flt t = cursor_execute flt (\<lambda>d. d) t"

text \<open>
  \<^verbatim>\<open>get_db_connection_new\<close> returns \<^verbatim>\<open>None\<close> when the connection fails; the
  handlers then fail on \<^verbatim>\<open>conn.cursor()\<close>.
\<close>

definition get_db_connection_new :: "faults \<Rightarrow> world \<Rightarrow> tx option" where
  "get_db_connection_new flt w =
     (case flt (tick w) of
        Some e \<Rightarrow> None
      | None \<Rightarrow> Some (db w, Suc (tick w)))"

text \<open>
  The end of a handler's \<^verbatim>\<open>try\<close> block: the working copy becomes the committed
  database when the block committed, and is dropped (\<^verbatim>\<open>conn.rollback()\<close>, or the
  connection closed) when it raised.
\<close>

definition finish_tx :: "world \<Rightarrow> error + ('a \<times> tx) \<Rightarrow> world \<times> (error + 'a)" where
  "finish_tx w r =
     (case r of
        Inl e \<Rightarrow> (next_tick w, Inl e)
      | Inr (a, t) \<Rightarrow> (w\<lparr>db := fst t, tick := snd t\<rparr>, Inr a))"

section \<open>Statements\<close>

definition then_do :: "error + 'a \<Rightarrow> ('a \<Rightarrow> error + 'b) \<Rightarrow> error + 'b" where
  "then_do r f = (case r of Inl e \<Rightarrow> Inl e | Inr a \<Rightarrow> f a)"

text \<open>
  \<^verbatim>\<open>dict(zip(keys, values))[k]\<close>: the last pair with the key wins, and a key that
  is absent raises \<^verbatim>\<open>KeyError\<close>. A select box created with \<^verbatim>\<open>index=None\<close>
  returns \<^verbatim>\<open>None\<close> until something is chosen, which is no key of the dictionary.
\<close>

definition dict_zip_get :: "'k list \<Rightarrow> 'v list \<Rightarrow> 'k \<Rightarrow> error + 'v" where
  "dict_zip_get ks vs k =
     (case map_of (rev (zip ks vs)) k of None \<Rightarrow> Inl KeyError | Some v \<Rightarrow> Inr v)"

definition lookup_selected :: "'k list \<Rightarrow> 'v list \<Rightarrow> 'k option \<Rightarrow> error + 'v" where
  "lookup_selected ks vs sel =
     (case sel of None \<Rightarrow> Inl KeyError | Some k \<Rightarrow> dict_zip_get ks vs k)"

text \<open>
  \<^verbatim>\<open>st.number_input(min_value, max_value)\<close>: the widget hands over no value outside
  its bounds (the form refuses it, and a value set behind it raises).
\<close>

definition number_input :: "'a::linorder option \<Rightarrow> 'a option \<Rightarrow> 'a \<Rightarrow> error + 'a" where
  "number_input min_value max_value v =
     (if (case min_value of None \<Rightarrow> False | Some l \<Rightarrow> v < l)
         \<or> (case max_value of None \<Rightarrow> False | Some h \<Rightarrow> h < v)
      then Inl StreamlitAPIException else Inr v)"

text \<open>The same with \<^verbatim>\<open>value=None\<close>: the field may be left empty.\<close>

definition number_input_opt ::
  "'a::linorder option \<Rightarrow> 'a option \<Rightarrow> 'a option \<Rightarrow> error + 'a option" where
  "number_input_opt min_value max_value v =
     (case v of
        None \<Rightarrow> Inr None
      | Some x \<Rightarrow> then_do (number_input min_value max_value x) (\<lambda>y. Inr (Some y)))"

text \<open>\<^verbatim>\<open>SELECT estoque_atual, preco_custo FROM Produtos WHERE produto_id = %s\<close>, \<^verbatim>\<open>fetchone()\<close>.\<close>

definition select_estoque_custo :: "nat \<Rightarrow> database \<Rightarrow> (int \<times> rat) option" where
  "select_estoque_custo pid d =
     (case filter (\<lambda>p. p_produto_id p = pid) (produtos d) of
        [] \<Rightarrow> None
      | p # ps \<Rightarrow> Some (p_estoque_atual p, p_preco_custo p))"

text \<open>\<^verbatim>\<open>INSERT INTO Entradas (...) VALUES (...)\<close>.\<close>

definition insert_entrada :: "entrada \<Rightarrow> database \<Rightarrow> database" where
  "insert_entrada e d = d\<lparr>entradas := entradas d @ [e]\<rparr>"

text \<open>\<^verbatim>\<open>UPDATE Produtos SET estoque_atual = %s, preco_custo = %s WHERE produto_id = %s\<close>.\<close>

definition update_estoque_custo :: "nat \<Rightarrow> int \<Rightarrow> rat \<Rightarrow> database \<Rightarrow> database" where
  "update_estoque_custo pid novo_estoque novo_custo d =
     d\<lparr>produtos :=
         map (\<lambda>p. if p_produto_id p = pid
                   then p\<lparr>p_estoque_atual := novo_estoque, p_preco_custo := novo_custo\<rparr>
                   else p) (produtos d)\<rparr>"

text \<open>\<^verbatim>\<open>UPDATE Produtos SET estoque_atual = estoque_atual - %s WHERE produto_id = %s\<close>.\<close>

definition update_estoque_sub :: "int \<Rightarrow> nat \<Rightarrow> database \<Rightarrow> database" where
  "update_estoque_sub qtd pid d =
     d\<lparr>produtos :=
         map (\<lambda>p. if p_produto_id p = pid
                   then p\<lparr>p_estoque_atual := p_estoque_atual p - qtd\<rparr>
                   else p) (produtos d)\<rparr>"

text \<open>\<^verbatim>\<open>UPDATE Produtos SET estoque_atual = estoque_atual + %s WHERE produto_id = %s\<close>.\<close>

definition update_estoque_add :: "int \<Rightarrow> nat \<Rightarrow> database \<Rightarrow> database" where
  "update_estoque_add qtd pid d =
     d\<lparr>produtos :=
         map (\<lambda>p. if p_produto_id p = pid
                   then p\<lparr>p_estoque_atual := p_estoque_atual p + qtd\<rparr>
                   else p) (produtos d)\<rparr>"

text \<open>\<^verbatim>\<open>INSERT INTO Pedidos (...) VALUES (...) RETURNING pedido_id\<close>, with the key the database gives.\<close>

definition insert_pedido :: "pedido \<Rightarrow> database \<Rightarrow> database" where
  "insert_pedido p d = d\<lparr>pedidos := pedidos d @ [p]\<rparr>"

text \<open>\<^verbatim>\<open>INSERT INTO Vendas (...) VALUES (...)\<close>.\<close>

definition insert_venda :: "venda \<Rightarrow> database \<Rightarrow> database" where
  "insert_venda v d = d\<lparr>vendas := vendas d @ [v]\<rparr>"

text \<open>\<^verbatim>\<open>INSERT INTO Devolucoes (...) VALUES (...)\<close>.\<close>

definition insert_devolucao :: "devolucao \<Rightarrow> database \<Rightarrow> database" where
  "insert_devolucao r d = d\<lparr>devolucoes := devolucoes d @ [r]\<rparr>"

text \<open>\<^verbatim>\<open>UPDATE Pedidos SET status_pedido = '...' WHERE pedido_id IN (...)\<close>.\<close>

definition update_status_in :: "status \<Rightarrow> nat list \<Rightarrow> database \<Rightarrow> database" where
  "update_status_in st ids d =
     d\<lparr>pedidos :=
         map (\<lambda>p. if o_pedido_id p \<in> set ids then p\<lparr>o_status_pedido := st\<rparr> else p)
           (pedidos d)\<rparr>"

text \<open>\<^verbatim>\<open>INSERT INTO Produtos (...) VALUES (...)\<close>.\<close>

definition insert_produto :: "produto \<Rightarrow> database \<Rightarrow> database" where
  "insert_produto p d = d\<lparr>produtos := produtos d @ [p]\<rparr>"

text \<open>\<^verbatim>\<open>UPDATE Produtos SET preco_custo = %s, preco_venda = %s WHERE produto_id = %s\<close>.\<close>

definition update_precos :: "rat \<Rightarrow> rat \<Rightarrow> nat \<Rightarrow> database \<Rightarrow> database" where
  "update_precos custo venda pid d =
     d\<lparr>produtos :=
         map (\<lambda>p. if p_produto_id p = pid
                   then p\<lparr>p_preco_custo := custo, p_preco_venda := venda\<rparr>
                   else p) (produtos d)\<rparr>"

section \<open>Purchases: \<^verbatim>\<open>Registrar Compra e Dar Entrada no Estoque\<close>\<close>

text \<open>
  The body of the handler's \<^verbatim>\<open>try\<close> block: the current stock and cost are read, the
  purchase is written to the history, the weighted average cost is computed, and the
  product is updated. \<^verbatim>\<open>st.stop()\<close> ends the run when the product is not found.
  The columns of stock and cost are never \<^verbatim>\<open>NULL\<close> here (the product form always
  writes both), so the defaults that the handler has for \<^verbatim>\<open>None\<close> are left out.
\<close>

definition compra_tx ::
  "faults \<Rightarrow> nat \<Rightarrow> nat \<Rightarrow> int \<Rightarrow> rat \<Rightarrow> date \<Rightarrow> date \<Rightarrow> string \<Rightarrow> tx \<Rightarrow> error + (int \<times> tx)" where
  "compra_tx flt produto_id fornecedor_id quantidade_entrada valor_unitario_compra
       data_emissao_input data_recebimento_input nota_fiscal t0 =
     then_do (cursor_execute flt (\<lambda>d. d) t0) (\<lambda>t1.
       case select_estoque_custo produto_id (fst t1) of
         None \<Rightarrow> Inl StopException
       | Some (estoque_atual_db, custo_atual_db) \<Rightarrow>
           then_do (cursor_execute flt
                      (insert_entrada
                         \<lparr>e_produto_id = produto_id, e_fornecedor_id = fornecedor_id,
                          e_data_recebimento = data_recebimento_input,
                          e_emissao = data_emissao_input,
                          e_quantidade_comprada = quantidade_entrada,
                          e_valor_unitario_compra = valor_unitario_compra,
                          e_numero_nota_fiscal = nota_fiscal\<rparr>) t1) (\<lambda>t2.
             let valor_total_antigo = of_int estoque_atual_db * custo_atual_db;
                 valor_total_novo = of_int quantidade_entrada * valor_unitario_compra;
                 novo_estoque = estoque_atual_db + quantidade_entrada;
                 novo_custo_medio =
                   (if novo_estoque > 0
                    then (valor_total_antigo + valor_total_novo) / of_int novo_estoque
                    else valor_unitario_compra)
             in then_do (cursor_execute flt
                           (update_estoque_custo produto_id novo_estoque
                              (py_round4 novo_custo_medio)) t2) (\<lambda>t3.
                  then_do (conn_commit flt t3) (\<lambda>t4. Inr (novo_estoque, t4)))))"

text \<open>
  The handler. \<open>fornecedor_id\<close> is the supplier chosen in its select box (\<open>None\<close> when
  nothing is chosen); the product is chosen by its description. Nothing happens when one
  of them is missing; the result is the new stock otherwise.
\<close>

definition registrar_compra ::
  "faults \<Rightarrow> nat option \<Rightarrow> string option \<Rightarrow> int \<Rightarrow> rat \<Rightarrow> date \<Rightarrow> date \<Rightarrow> string \<Rightarrow> world
     \<Rightarrow> world \<times> (error + int option)" where
  "registrar_compra flt fornecedor_id produto_selecionado quantidade_entrada
       valor_unitario_compra data_emissao_input data_recebimento_input nota_fiscal w =
     (case number_input (Some 1) None quantidade_entrada of
        Inl e \<Rightarrow> (w, Inl e)
      | Inr qtd \<Rightarrow>
     (case number_input (Some 0) None valor_unitario_compra of
        Inl e \<Rightarrow> (w, Inl e)
      | Inr valor \<Rightarrow>
     (case (fornecedor_id, produto_selecionado) of
        (Some forn, Some (c # cs)) \<Rightarrow>
          (case dict_zip_get (map p_descricao (produtos (db w)))
                  (map p_produto_id (produtos (db w))) (c # cs) of
             Inl e \<Rightarrow> (w, Inl e)
           | Inr produto_id \<Rightarrow>
               (case get_db_connection_new flt w of
                  None \<Rightarrow> (next_tick w, Inl StopException)
                | Some t0 \<Rightarrow>
                    (case finish_tx w
                            (compra_tx flt produto_id forn qtd valor data_emissao_input
                               data_recebimento_input nota_fiscal t0) of
                       (w', Inl e) \<Rightarrow> (w', Inl e)
                     | (w', Inr novo_estoque) \<Rightarrow> (w', Inr (Some novo_estoque)))))
      | _ \<Rightarrow> (w, Inr None))))"

section \<open>Sales orders: the cart and \<^verbatim>\<open>Registrar Pedido\<close>\<close>

text \<open>
  \<^verbatim>\<open>Adicionar Item\<close>: the product is looked up in the table read by this run, the
  discounted price and the subtotal are computed, and the line is appended to the cart
  unless the quantity is above the stock read. The result tells whether a line was added.
\<close>

definition adicionar_item ::
  "string option \<Rightarrow> int option \<Rightarrow> rat option \<Rightarrow> world \<Rightarrow> world \<times> (error + bool)" where
  "adicionar_item produto_item quantidade_item percentual_desconto w =
     (case number_input_opt (Some 1) None quantidade_item of
        Inl e \<Rightarrow> (w, Inl e)
      | Inr quantidade \<Rightarrow>
     (case number_input_opt (Some 0) (Some 100) percentual_desconto of
        Inl e \<Rightarrow> (w, Inl e)
      | Inr percentual \<Rightarrow>
     (case produto_item of
        None \<Rightarrow> (w, Inl KeyError)
      | Some produto_nome \<Rightarrow>
     (case dict_zip_get (map p_descricao (produtos (db w)))
             (map p_produto_id (produtos (db w))) produto_nome of
        Inl e \<Rightarrow> (w, Inl e)
      | Inr produto_id \<Rightarrow>
     (case filter (\<lambda>p. p_produto_id p = produto_id) (produtos (db w)) of
        [] \<Rightarrow> (w, Inl IndexError)
      | produto_data # rest \<Rightarrow>
     (case (percentual, quantidade) of
        (Some perc, Some qtd) \<Rightarrow>
          (let estoque_atual = p_estoque_atual produto_data;
               preco_venda_original = p_preco_venda produto_data;
               fator_desconto = 1 - perc / 100;
               preco_unit_com_desconto = preco_venda_original * fator_desconto;
               subtotal_item = preco_unit_com_desconto * of_int qtd
           in if qtd > estoque_atual then (w, Inr False)
              else (w\<lparr>session_vendas := session_vendas w @
                        [\<lparr>i_produto_id = produto_id,
                          i_produto_nome = produto_nome,
                          i_quantidade = qtd,
                          i_preco_unit_original = preco_venda_original,
                          i_desconto_perc = perc,
                          i_preco_unit = preco_unit_com_desconto,
                          i_subtotal = subtotal_item\<rparr>]\<rparr>, Inr True))
      | _ \<Rightarrow> (w, Inl TypeError)))))))"

text \<open>
  The loop of \<^verbatim>\<open>Registrar Pedido\<close> over the cart: each line is written to
  \<^verbatim>\<open>Vendas\<close> and its quantity is taken from the product's stock.
\<close>

definition venda_of_item :: "nat \<Rightarrow> item \<Rightarrow> venda" where
  "venda_of_item pedido_id it =
     \<lparr>v_pedido_id = pedido_id, v_produto_id = i_produto_id it,
      v_quantidade = i_quantidade it, v_preco_unitario = i_preco_unit it,
      v_subtotal = i_subtotal it, v_desconto = i_desconto_perc it\<rparr>"

fun registrar_itens :: "faults \<Rightarrow> nat \<Rightarrow> item list \<Rightarrow> tx \<Rightarrow> error + tx" where
  "registrar_itens flt pedido_id [] t = Inr t"
| "registrar_itens flt pedido_id (it # its) t =
     (case cursor_execute flt (insert_venda (venda_of_item pedido_id it)) t of
        Inl e \<Rightarrow> Inl e
      | Inr t1 \<Rightarrow>
          (case cursor_execute flt (update_estoque_sub (i_quantidade it) (i_produto_id it)) t1 of
             Inl e \<Rightarrow> Inl e
           | Inr t2 \<Rightarrow> registrar_itens flt pedido_id its t2))"

text \<open>
  The \<^verbatim>\<open>try\<close> block of \<^verbatim>\<open>Registrar Pedido\<close>. \<open>new_id\<close> is the key that
  \<^verbatim>\<open>RETURNING pedido_id\<close> gives.
\<close>

definition pedido_tx ::
  "faults \<Rightarrow> string option \<Rightarrow> string option \<Rightarrow> data_value \<Rightarrow> nat \<Rightarrow> rat \<Rightarrow> item list \<Rightarrow> tx
     \<Rightarrow> error + (nat \<times> tx)" where
  "pedido_tx flt cliente_selecionado forma_pagamento data_pedido new_id valor_total cart t0 =
     then_do (lookup_selected (map c_nome (clientes (fst t0)))
                (map c_cliente_id (clientes (fst t0))) cliente_selecionado) (\<lambda>cliente_id.
       then_do (cursor_execute flt
                  (insert_pedido
                     \<lparr>o_pedido_id = new_id, o_cliente_id = cliente_id,
                      o_data_pedido = data_pedido, o_valor_total = valor_total,
                      o_status_pedido = Pendente, o_forma_pagamento = forma_pagamento\<rparr>) t0) (\<lambda>t1.
         then_do (registrar_itens flt new_id cart t1) (\<lambda>t2.
           then_do (conn_commit flt t2) (\<lambda>t3. Inr (new_id, t3)))))"

text \<open>
  The handler: shown only for a cart that is not empty, whose total is the sum of the
  subtotals. After the commit the cart is emptied and the cache cleared. When no connection
  is made, \<^verbatim>\<open>conn.cursor()\<close> fails and the \<^verbatim>\<open>finally\<close> block raises on the
  unbound \<^verbatim>\<open>cursor\<close>.
\<close>

definition registrar_pedido ::
  "faults \<Rightarrow> string option \<Rightarrow> string option \<Rightarrow> data_value \<Rightarrow> nat \<Rightarrow> world
     \<Rightarrow> world \<times> (error + nat option)" where
  "registrar_pedido flt cliente_selecionado forma_pagamento data_pedido new_id w =
     (if session_vendas w = [] then (w, Inr None)
      else
        (let valor_total = sum_list (map i_subtotal (session_vendas w))
         in case get_db_connection_new flt w of
              None \<Rightarrow> (next_tick w, Inl NameError)
            | Some t0 \<Rightarrow>
                (case finish_tx w
                        (pedido_tx flt cliente_selecionado forma_pagamento data_pedido new_id
                           valor_total (session_vendas w) t0) of
                   (w', Inl e) \<Rightarrow> (w', Inl e)
                 | (w', Inr pedido_id) \<Rightarrow>
                     (clear_cache (w'\<lparr>session_vendas := []\<rparr>), Inr (Some pedido_id)))))"

section \<open>The texts of the statements run through \<^verbatim>\<open>execute_query\<close>\<close>

definition sql_header :: string where
  \<open>sql_header =
     [CHR 10] @
     ''        SELECT P.pedido_id, C.nome AS cliente_nome, C.cpf_cnpj, '' @ [CHR 10] @
     ''               P.data_pedido, P.valor_total, P.forma_pagamento'' @ [CHR 10] @
     ''        FROM Pedidos P'' @ [CHR 10] @
     ''        LEFT JOIN Clientes C ON P.cliente_id = C.cliente_id'' @ [CHR 10] @
     ''        WHERE P.pedido_id = %s'' @ [CHR 10] @
     ''    ''\<close>

definition sql_items :: string where
  \<open>sql_items =
     [CHR 10] @
     ''        SELECT I.quantidade, I.preco_unitario, I.subtotal, '' @ [CHR 10] @
     ''               Pr.descricao'' @ [CHR 10] @
     ''        FROM Vendas I'' @ [CHR 10] @
     ''        LEFT JOIN Produtos Pr ON I.produto_id = Pr.produto_id'' @ [CHR 10] @
     ''        WHERE I.pedido_id = %s'' @ [CHR 10] @
     ''    ''\<close>

definition sql_insert_produto :: string where
  \<open>sql_insert_produto =
     [CHR 10] @
     ''                            INSERT INTO Produtos (codigo_sku, descricao, marca, preco_cust'' @ ''o, preco_venda, estoque_atual, estoque_minimo, categoria_id, fornecedor_id, modelo_moto, a'' @ ''no_moto)'' @ [CHR 10] @
     ''                            VALUES (%s, %s, %s, %s, %s, %s, %s, %s, %s, %s, %s)'' @ [CHR 10] @
     ''                        ''\<close>

definition sql_update_preco :: string where
  \<open>sql_update_preco =
     ''UPDATE Produtos SET preco_custo = %s, preco_venda = %s WHERE produto_id = %s''\<close>

definition sql_pendentes :: string where
  \<open>sql_pendentes =
     [CHR 10] @
     ''        SELECT P.pedido_id, C.nome AS cliente_nome, P.data_pedido, P.valor_total'' @ [CHR 10] @
     ''        FROM Pedidos P'' @ [CHR 10] @
     ''        LEFT JOIN Clientes C ON P.cliente_id = C.cliente_id'' @ [CHR 10] @
     ''        WHERE P.status_pedido = 'Pendente'' @ [CHR 0x27] @ [CHR 10] @
     ''        ORDER BY P.data_pedido'' @ [CHR 10] @
     ''    ''\<close>

definition sql_pedidos :: string where
  \<open>sql_pedidos =
     [CHR 10] @
     ''        SELECT P.pedido_id, C.nome AS cliente_nome, P.data_pedido '' @ [CHR 10] @
     ''        FROM Pedidos P'' @ [CHR 10] @
     ''        JOIN Clientes C ON P.cliente_id = C.cliente_id'' @ [CHR 10] @
     ''        WHERE P.status_pedido = 'Conclu'' @ [CHR 0xC3, CHR 0xAD] @ ''do'' @ [CHR 0x27] @ [CHR 10] @
     ''        ORDER BY P.data_pedido DESC'' @ [CHR 10] @
     ''    ''\<close>

definition sql_itens :: string where
  \<open>sql_itens =
     [CHR 10] @
     ''                SELECT V.produto_id, Pr.descricao, V.quantidade, V.preco_unitario'' @ [CHR 10] @
     ''                FROM Vendas V'' @ [CHR 10] @
     ''                JOIN Produtos Pr ON V.produto_id = Pr.produto_id'' @ [CHR 10] @
     ''                WHERE V.pedido_id = %s'' @ [CHR 10] @
     ''            ''\<close>

text \<open>\<^verbatim>\<open>','.join(['%s'] * n)\<close>.\<close>

fun join_comma :: "string list \<Rightarrow> string" where
  "join_comma [] = []"
| "join_comma [x] = x"
| "join_comma (x # y # zs) = x @ '','' @ join_comma (y # zs)"

definition placeholders :: "nat \<Rightarrow> string" where
  "placeholders n = join_comma (replicate n ''%s'')"

definition sql_concluido :: "nat \<Rightarrow> string" where
  \<open>sql_concluido n =
     ''UPDATE Pedidos SET status_pedido='Conclu'' @ [CHR 0xC3, CHR 0xAD] @ ''do' WHERE pedido_id IN ('' @ placeholders n @ '')''\<close>

definition sql_cancelado :: "nat \<Rightarrow> string" where
  \<open>sql_cancelado n =
     ''UPDATE Pedidos SET status_pedido='Cancelado' WHERE pedido_id IN ('' @ placeholders n @ '')''\<close>

section \<open>The non-fiscal coupon\<close>

text \<open>The fixed text of the coupon, between the fields that are filled in.\<close>

definition cupom_cabecalho_1 :: string where
  \<open>cupom_cabecalho_1 =
     [CHR 10] @
     ''<div style="font-family: monospace; font-size: 10px; line-height: 1.2; width: 300px; margi'' @ ''n: 0 auto; padding: 10px; border: 1px dashed black; background-color: #fff;">'' @ [CHR 10] @
     ''    <h3 style="text-align: center; margin-bottom: 5px;">AUTOPE'' @ [CHR 0xC3, CHR 0x87] @ ''AS JACAR'' @ [CHR 0xC3, CHR 0x89] @ '' '' @ [CHR 0xF0, CHR 0x9F, CHR 0x90, CHR 0x8A] @ ''</h3>'' @ [CHR 10] @
     ''    <p style="text-align: center; margin: 0;">CNPJ: 00.000.000/0001-00</p>'' @ [CHR 10] @
     ''    <p style="text-align: center; margin: 0;">Rua Exemplo, 123 - Centro</p>'' @ [CHR 10] @
     ''    <p style="text-align: center; margin-bottom: 10px;">(92) 99999-9999</p>'' @ [CHR 10] @
     ''    '' @ [CHR 10] @
     ''    <p style="border-top: 1px dashed black; padding-top: 5px; margin: 5px 0 5px 0;">'' @ [CHR 10] @
     ''        **CUPOM N'' @ [CHR 0xC3, CHR 0x83] @ ''O FISCAL**<br>'' @ [CHR 10] @
     ''        PEDIDO: **#''\<close>

definition cupom_cabecalho_2 :: string where
  \<open>cupom_cabecalho_2 =
     ''**<br>'' @ [CHR 10] @
     ''        DATA: ''\<close>

definition cupom_cabecalho_3 :: string where
  \<open>cupom_cabecalho_3 =
     ''<br>'' @ [CHR 10] @
     ''        CLIENTE: ''\<close>

definition cupom_cabecalho_4 :: string where
  \<open>cupom_cabecalho_4 =
     ''<br>'' @ [CHR 10] @
     ''        CPF/CNPJ: ''\<close>

definition cupom_cabecalho_5 :: string where
  \<open>cupom_cabecalho_5 =
     ''<br>'' @ [CHR 10] @
     ''    </p>'' @ [CHR 10] @
     ''    <p style="border-top: 1px dashed black; padding-top: 5px; margin: 5px 0;">'' @ [CHR 10] @
     ''        **ITENS DA VENDA:**<br>'' @ [CHR 10] @
     ''        DESCRI'' @ [CHR 0xC3, CHR 0x87, CHR 0xC3, CHR 0x83] @ ''O | QTD | UNIT (R$) | TOTAL (R$)<br>'' @ [CHR 10] @
     ''        -------------------------------------------'' @ [CHR 10] @
     ''    </p>'' @ [CHR 10] @
     ''    ''\<close>

definition cupom_linha_1 :: string where
  \<open>cupom_linha_1 =
     [CHR 10] @
     ''        <p style="margin: 0;">''\<close>

definition cupom_linha_2 :: string where
  \<open>cupom_linha_2 =
     '' | ''\<close>

definition cupom_linha_3 :: string where
  \<open>cupom_linha_3 =
     '' | ''\<close>

definition cupom_linha_4 :: string where
  \<open>cupom_linha_4 =
     '' | ''\<close>

definition cupom_linha_5 :: string where
  \<open>cupom_linha_5 =
     ''</p>'' @ [CHR 10] @
     ''        ''\<close>

definition cupom_rodape_1 :: string where
  \<open>cupom_rodape_1 =
     [CHR 10] @
     ''    <p style="border-top: 1px dashed black; padding-top: 5px; margin: 5px 0;">'' @ [CHR 10] @
     ''        VALOR TOTAL: ''\<close>

definition cupom_rodape_2 :: string where
  \<open>cupom_rodape_2 =
     ''<br>'' @ [CHR 10] @
     ''        FORMA PGTO: ''\<close>

definition cupom_rodape_3 :: string where
  \<open>cupom_rodape_3 =
     ''<br>'' @ [CHR 10] @
     ''    </p>'' @ [CHR 10] @
     ''    <p style="border-top: 1px dashed black; padding-top: 5px; text-align: center;">'' @ [CHR 10] @
     ''        *** OBRIGADO PELA PREFER'' @ [CHR 0xC3, CHR 0x8A] @ ''NCIA! ***<br>'' @ [CHR 10] @
     ''        Este cupom n'' @ [CHR 0xC3, CHR 0xA3] @ ''o possui validade fiscal.<br>'' @ [CHR 10] @
     ''        Verifique a garantia de seus produtos.'' @ [CHR 10] @
     ''    </p>'' @ [CHR 10] @
     ''</div>'' @ [CHR 10] @
     ''    ''\<close>

definition nao_informado :: string where
  \<open>nao_informado =
     ''N'' @ [CHR 0xC3, CHR 0xA3] @ ''o Informado''\<close>

section \<open>Reading an order for the coupon\<close>

text \<open>\<^verbatim>\<open>A LEFT JOIN B ON cond\<close> and \<^verbatim>\<open>A JOIN B ON cond\<close>.\<close>

definition left_join :: "'a list \<Rightarrow> 'b list \<Rightarrow> ('a \<Rightarrow> 'b \<Rightarrow> bool) \<Rightarrow> ('a \<times> 'b option) list" where
  "left_join xs ys cond =
     concat (map (\<lambda>x. case filter (cond x) ys of
                          [] \<Rightarrow> [(x, None)]
                        | m # ms \<Rightarrow> map (\<lambda>y. (x, Some y)) (m # ms)) xs)"

definition inner_join :: "'a list \<Rightarrow> 'b list \<Rightarrow> ('a \<Rightarrow> 'b \<Rightarrow> bool) \<Rightarrow> ('a \<times> 'b) list" where
  "inner_join xs ys cond = concat (map (\<lambda>x. map (\<lambda>y. (x, y)) (filter (cond x) ys)) xs)"

record header_row =
  h_pedido_id :: nat
  h_cliente_nome :: "string option"
  h_cpf_cnpj :: "string option"
  h_data_pedido :: data_value
  h_valor_total :: rat
  h_forma_pagamento :: "string option"

record item_row =
  r_quantidade :: int
  r_preco_unitario :: rat
  r_subtotal :: rat
  r_descricao :: "string option"

text \<open>The rows of \<^verbatim>\<open>sql_header\<close> and of \<^verbatim>\<open>sql_items\<close> for an order.\<close>

definition select_header :: "nat \<Rightarrow> database \<Rightarrow> header_row list" where
  "select_header pedido_id d =
     map (\<lambda>(P, C).
            \<lparr>h_pedido_id = o_pedido_id P,
             h_cliente_nome = map_option c_nome C,
             h_cpf_cnpj = Option.bind C c_cpf_cnpj,
             h_data_pedido = o_data_pedido P,
             h_valor_total = o_valor_total P,
             h_forma_pagamento = o_forma_pagamento P\<rparr>)
       (filter (\<lambda>(P, C). o_pedido_id P = pedido_id)
          (left_join (pedidos d) (clientes d) (\<lambda>P C. o_cliente_id P = c_cliente_id C)))"

definition select_items :: "nat \<Rightarrow> database \<Rightarrow> item_row list" where
  "select_items pedido_id d =
     map (\<lambda>(I, Pr).
            \<lparr>r_quantidade = v_quantidade I,
             r_preco_unitario = v_preco_unitario I,
             r_subtotal = v_subtotal I,
             r_descricao = map_option p_descricao Pr\<rparr>)
       (filter (\<lambda>(I, Pr). v_pedido_id I = pedido_id)
          (left_join (vendas d) (produtos d) (\<lambda>I Pr. v_produto_id I = p_produto_id Pr)))"

text \<open>
  \<^verbatim>\<open>get_order_details_for_coupon\<close>: \<^verbatim>\<open>None\<close> when the header query gives no row,
  otherwise the first header row and whatever the items query returned.
\<close>

definition get_order_details_for_coupon ::
  "faults \<Rightarrow> nat \<Rightarrow> world \<Rightarrow> world \<times> (error + (header_row \<times> item_row query_result) option)" where
  "get_order_details_for_coupon flt pedido_id w =
     (case execute_query flt sql_header (\<lambda>d. (d, select_header pedido_id d)) True w of
        (w1, Inl e) \<Rightarrow> (w1, Inl e)
      | (w1, Inr QNone) \<Rightarrow> (w1, Inr None)
      | (w1, Inr QTrue) \<Rightarrow> (w1, Inl TypeError)
      | (w1, Inr (QRows [])) \<Rightarrow> (w1, Inr None)
      | (w1, Inr (QRows (header # others))) \<Rightarrow>
          (case execute_query flt sql_items (\<lambda>d. (d, select_items pedido_id d)) True w1 of
             (w2, Inl e) \<Rightarrow> (w2, Inl e)
           | (w2, Inr items_data) \<Rightarrow> (w2, Inr (Some (header, items_data)))))"

text \<open>\<^verbatim>\<open>strftime('%d/%m/%Y %H:%M')\<close> of a \<^verbatim>\<open>datetime\<close>, \<^verbatim>\<open>str()\<close> of anything else.\<close>

definition zfill :: "nat \<Rightarrow> string \<Rightarrow> string" where
  "zfill n s = replicate (n - length s) (CHR ''0'') @ s"

definition format_data_pedido :: "data_value \<Rightarrow> string" where
  "format_data_pedido v =
     (case v of
        Datetime y m d hh mm ss \<Rightarrow>
          zfill 2 (digits d) @ ''/'' @ zfill 2 (digits m) @ ''/'' @ zfill 4 (digits y) @ '' '' @
          zfill 2 (digits hh) @ '':'' @ zfill 2 (digits mm)
      | OtherValue s \<Rightarrow> s)"

text \<open>One line of the coupon; slicing a description that is \<^verbatim>\<open>None\<close> raises.\<close>

definition coupon_item :: "item_row \<Rightarrow> error + string" where
  "coupon_item item =
     (case r_descricao item of
        None \<Rightarrow> Inl TypeError
      | Some descricao \<Rightarrow>
          (let nome = ljust 15 (take 15 descricao);
               qtd = rjust 3 (fmt_f 0 (of_int (r_quantidade item)));
               unit = rjust 9 (fmt_f 2 (r_preco_unitario item));
               total = rjust 9 (fmt_f 2 (r_subtotal item))
           in Inr (cupom_linha_1 @ nome @ cupom_linha_2 @ qtd @ cupom_linha_3 @ unit @
                   cupom_linha_4 @ total @ cupom_linha_5)))"

fun coupon_items :: "string \<Rightarrow> item_row list \<Rightarrow> error + string" where
  "coupon_items coupon_content [] = Inr coupon_content"
| "coupon_items coupon_content (item # items) =
     (case coupon_item item of
        Inl e \<Rightarrow> Inl e
      | Inr line \<Rightarrow> coupon_items (coupon_content @ line) items)"

text \<open>
  \<^verbatim>\<open>generate_non_fiscal_coupon(pedido_id, order_details)\<close>. Indexing details that are
  \<^verbatim>\<open>None\<close>, or iterating over items that are no list, raises \<^verbatim>\<open>TypeError\<close>.
\<close>

definition generate_non_fiscal_coupon ::
  "nat \<Rightarrow> (header_row \<times> item_row query_result) option \<Rightarrow> error + string" where
  "generate_non_fiscal_coupon pedido_id order_details =
     (case order_details of
        None \<Rightarrow> Inl TypeError
      | Some (header, items) \<Rightarrow>
          (let data_formatada = format_data_pedido (h_data_pedido header);
               coupon_content =
                 cupom_cabecalho_1 @ digits (h_pedido_id header) @
                 cupom_cabecalho_2 @ data_formatada @
                 cupom_cabecalho_3 @ str_opt (h_cliente_nome header) @
                 cupom_cabecalho_4 @
                   (case h_cpf_cnpj header of
                      None \<Rightarrow> nao_informado
                    | Some [] \<Rightarrow> nao_informado
                    | Some (c # cs) \<Rightarrow> c # cs) @
                 cupom_cabecalho_5
           in case items of
                QRows rows \<Rightarrow>
                  then_do (coupon_items coupon_content rows) (\<lambda>content.
                    Inr (content @ cupom_rodape_1 @
                         rjust 26 (''R$ '' @ fmt_f 2 (h_valor_total header)) @
                         cupom_rodape_2 @ str_opt (h_forma_pagamento header) @
                         cupom_rodape_3))
              | _ \<Rightarrow> Inl TypeError))"

text \<open>The coupon of an order: the two reads, then the text.\<close>

definition print_coupon :: "faults \<Rightarrow> nat \<Rightarrow> world \<Rightarrow> world \<times> (error + string)" where
  "print_coupon flt pid w =
     (case get_order_details_for_coupon flt pid w of
        (w1, Inl e) \<Rightarrow> (w1, Inl e)
      | (w1, Inr detalhes) \<Rightarrow> (w1, generate_non_fiscal_coupon pid detalhes))"

section \<open>Products: \<^verbatim>\<open>Salvar Produto\<close> and \<^verbatim>\<open>Atualizar Precos\<close>\<close>

text \<open>
  The new product is written when the SKU and the brand are filled in; \<open>novo\<close> is the
  row with the key the database gives it. Both handlers go through
  \<^verbatim>\<open>execute_query\<close> and do nothing else to the cache.
\<close>

definition salvar_produto ::
  "faults \<Rightarrow> string \<Rightarrow> produto \<Rightarrow> world \<Rightarrow> world \<times> (error + unit query_result)" where
  "salvar_produto flt marca novo w =
     (if p_codigo_sku novo \<noteq> [] \<and> marca \<noteq> []
      then execute_query flt sql_insert_produto (\<lambda>d. (insert_produto novo d, [])) False w
      else (w, Inr QNone))"

definition atualizar_precos ::
  "faults \<Rightarrow> rat \<Rightarrow> rat \<Rightarrow> nat \<Rightarrow> world \<Rightarrow> world \<times> (error + unit query_result)" where
  "atualizar_precos flt novo_preco_custo novo_preco_venda produto_id_update w =
     execute_query flt sql_update_preco
       (\<lambda>d. (update_precos novo_preco_custo novo_preco_venda produto_id_update d, [])) False w"

section \<open>Pending orders: \<^verbatim>\<open>Marcar como CONCLUIDO\<close> and \<^verbatim>\<open>Marcar como CANCELADO\<close>\<close>

text \<open>
  The column \<^verbatim>\<open>pedido_id\<close> of the rows of \<^verbatim>\<open>sql_pendentes\<close>: the options of the
  multiselect. The other columns are only shown, and the order of the rows
  (\<^verbatim>\<open>ORDER BY\<close>) does not change which keys are offered.
\<close>

definition select_pendentes :: "database \<Rightarrow> nat list" where
  "select_pendentes d =
     map (\<lambda>(P, C). o_pedido_id P)
       (filter (\<lambda>(P, C). o_status_pedido P = Pendente)
          (left_join (pedidos d) (clientes d) (\<lambda>P C. o_cliente_id P = c_cliente_id C)))"

text \<open>\<^verbatim>\<open>st.multiselect(label, options)\<close> returns the choices of the user that are options.\<close>

definition st_multiselect :: "'a list \<Rightarrow> 'a list \<Rightarrow> 'a list" where
  "st_multiselect options picks = filter (\<lambda>x. x \<in> set options) picks"

text \<open>
  The page reads the pending orders first; \<^verbatim>\<open>pd.DataFrame(None)\<close> is empty, and the
  page then only says that there is no pending order.
\<close>

definition pedidos_pendentes :: "faults \<Rightarrow> world \<Rightarrow> world \<times> (error + nat list)" where
  "pedidos_pendentes flt w =
     (case execute_query flt sql_pendentes (\<lambda>d. (d, select_pendentes d)) True w of
        (w1, Inl e) \<Rightarrow> (w1, Inl e)
      | (w1, Inr QNone) \<Rightarrow> (w1, Inr [])
      | (w1, Inr QTrue) \<Rightarrow> (w1, Inl ValueError)
      | (w1, Inr (QRows ids)) \<Rightarrow> (w1, Inr ids))"

fun imprimir_cupons :: "faults \<Rightarrow> nat list \<Rightarrow> world \<Rightarrow> world \<times> (error + string list)" where
  "imprimir_cupons flt [] w = (w, Inr [])"
| "imprimir_cupons flt (pid # pids) w =
     (case print_coupon flt pid w of
        (w1, Inl e) \<Rightarrow> (w1, Inl e)
      | (w1, Inr cupom) \<Rightarrow>
          (case imprimir_cupons flt pids w1 of
             (w2, Inl e) \<Rightarrow> (w2, Inl e)
           | (w2, Inr cupons) \<Rightarrow> (w2, Inr (cupom # cupons))))"

text \<open>
  \<^verbatim>\<open>Marcar como CONCLUIDO\<close>: the selected orders are updated in one statement, the
  coupons are shown when asked for, and the cache is cleared. The result is the list of
  coupons shown.
\<close>

definition marcar_concluido ::
  "faults \<Rightarrow> nat list \<Rightarrow> bool \<Rightarrow> world \<Rightarrow> world \<times> (error + string list)" where
  "marcar_concluido flt picks imprimir_cupom w =
     (case pedidos_pendentes flt w of
        (w1, Inl e) \<Rightarrow> (w1, Inl e)
      | (w1, Inr []) \<Rightarrow> (w1, Inr [])
      | (w1, Inr (opt # opts)) \<Rightarrow>
          (let pedidos_selecionados = st_multiselect (opt # opts) picks
           in if pedidos_selecionados = [] then (w1, Inr [])
              else
                (case execute_query flt (sql_concluido (length pedidos_selecionados))
                        (\<lambda>d. (update_status_in Concluido pedidos_selecionados d, [] :: unit list))
                        False w1 of
                   (w2, Inl e) \<Rightarrow> (w2, Inl e)
                 | (w2, Inr r) \<Rightarrow>
                     (if imprimir_cupom
                      then (case imprimir_cupons flt pedidos_selecionados w2 of
                              (w3, Inl e) \<Rightarrow> (w3, Inl e)
                            | (w3, Inr cupons) \<Rightarrow> (clear_cache w3, Inr cupons))
                      else (clear_cache w2, Inr [])))))"

definition marcar_cancelado :: "faults \<Rightarrow> nat list \<Rightarrow> world \<Rightarrow> world \<times> (error + unit)" where
  "marcar_cancelado flt picks w =
     (case pedidos_pendentes flt w of
        (w1, Inl e) \<Rightarrow> (w1, Inl e)
      | (w1, Inr []) \<Rightarrow> (w1, Inr ())
      | (w1, Inr (opt # opts)) \<Rightarrow>
          (let pedidos_selecionados = st_multiselect (opt # opts) picks
           in if pedidos_selecionados = [] then (w1, Inr ())
              else
                (case execute_query flt (sql_cancelado (length pedidos_selecionados))
                        (\<lambda>d. (update_status_in Cancelado pedidos_selecionados d, [] :: unit list))
                        False w1 of
                   (w2, Inl e) \<Rightarrow> (w2, Inl e)
                 | (w2, Inr r) \<Rightarrow> (clear_cache w2, Inr ()))))"

section \<open>Returns: \<^verbatim>\<open>Confirmar Devolucao\<close>\<close>

text \<open>The keys of the rows of \<^verbatim>\<open>sql_pedidos\<close>: the completed orders that can be chosen.\<close>

definition select_pedidos_concluidos :: "database \<Rightarrow> nat list" where
  "select_pedidos_concluidos d =
     map (\<lambda>(P, C). o_pedido_id P)
       (filter (\<lambda>(P, C). o_status_pedido P = Concluido)
          (inner_join (pedidos d) (clientes d) (\<lambda>P C. o_cliente_id P = c_cliente_id C)))"

record item_pedido_row =
  ip_produto_id :: nat
  ip_descricao :: string
  ip_quantidade :: int
  ip_preco_unitario :: rat

text \<open>The rows of \<^verbatim>\<open>sql_itens\<close>: the lines of the chosen order.\<close>

definition select_itens_pedido :: "nat \<Rightarrow> database \<Rightarrow> item_pedido_row list" where
  "select_itens_pedido pedido_id d =
     map (\<lambda>(V, Pr).
            \<lparr>ip_produto_id = v_produto_id V, ip_descricao = p_descricao Pr,
             ip_quantidade = v_quantidade V, ip_preco_unitario = v_preco_unitario V\<rparr>)
       (filter (\<lambda>(V, Pr). v_pedido_id V = pedido_id)
          (inner_join (vendas d) (produtos d) (\<lambda>V Pr. v_produto_id V = p_produto_id Pr)))"

datatype estado_produto = Novo_Perfeito_Estado | Avariado_Leve | Sucata_Danificado

definition mapa_estado :: "estado_produto \<Rightarrow> string" where
  "mapa_estado e =
     (case e of
        Novo_Perfeito_Estado \<Rightarrow> ''Novo''
      | Avariado_Leve \<Rightarrow> ''Avariado''
      | Sucata_Danificado \<Rightarrow> ''Sucata'')"

text \<open>
  \<^verbatim>\<open>st.checkbox(label, value=default)\<close>: the default unless the user has set the box.
\<close>

definition st_checkbox :: "bool \<Rightarrow> bool option \<Rightarrow> bool" where
  "st_checkbox default_value user_value =
     (case user_value of None \<Rightarrow> default_value | Some b \<Rightarrow> b)"

text \<open>The default of the box \<^verbatim>\<open>Apto a voltar ao estoque de vendas?\<close>.\<close>

definition retornar_estoque_default :: "estado_produto \<Rightarrow> bool" where
  "retornar_estoque_default estado = (estado = Novo_Perfeito_Estado)"

text \<open>The \<^verbatim>\<open>try\<close> block of the handler, up to the commit.\<close>

definition devolucao_tx :: "faults \<Rightarrow> devolucao \<Rightarrow> tx \<Rightarrow> error + (bool \<times> tx)" where
  "devolucao_tx flt dev t0 =
     then_do (cursor_execute flt (insert_devolucao dev) t0) (\<lambda>t1.
       then_do (if d_retornou_estoque dev
                then cursor_execute flt (update_estoque_add (d_quantidade dev) (d_produto_id dev)) t1
                else Inr t1) (\<lambda>t2.
         then_do (conn_commit flt t2) (\<lambda>t3. Inr (d_retornou_estoque dev, t3))))"

text \<open>
  The page and the form: the completed orders are read, the lines of the chosen order are
  read, the first line with the chosen description is the selected item, the quantity is
  taken from a number input bounded by 1 and the quantity of that line, and the return is
  written. The result tells whether the stock was updated; it is \<open>None\<close> when the page
  shows no form.
\<close>

definition confirmar_devolucao ::
  "faults \<Rightarrow> nat option \<Rightarrow> string \<Rightarrow> int \<Rightarrow> estado_produto \<Rightarrow> bool option \<Rightarrow> string \<Rightarrow> date \<Rightarrow> world
     \<Rightarrow> world \<times> (error + bool option)" where
  "confirmar_devolucao flt selecao_pedido produto_para_devolver qtd estado_produto
       retornar_user motivo data_devolucao_input w =
     (case execute_query flt sql_pedidos (\<lambda>d. (d, select_pedidos_concluidos d)) True w of
        (w1, Inl e) \<Rightarrow> (w1, Inl e)
      | (w1, Inr QTrue) \<Rightarrow> (w1, Inl ValueError)
      | (w1, Inr QNone) \<Rightarrow> (w1, Inr None)
      | (w1, Inr (QRows [])) \<Rightarrow> (w1, Inr None)
      | (w1, Inr (QRows (opt # opts))) \<Rightarrow>
     (case selecao_pedido of
        None \<Rightarrow> (w1, Inr None)
      | Some pedido_id_sel \<Rightarrow>
     (if pedido_id_sel \<notin> set (opt # opts) then (w1, Inl KeyError) else
     (case execute_query flt sql_itens (\<lambda>d. (d, select_itens_pedido pedido_id_sel d)) True w1 of
        (w2, Inl e) \<Rightarrow> (w2, Inl e)
      | (w2, Inr QTrue) \<Rightarrow> (w2, Inl ValueError)
      | (w2, Inr QNone) \<Rightarrow> (w2, Inl KeyError)
      | (w2, Inr (QRows df_itens_pedido)) \<Rightarrow>
     (if df_itens_pedido = [] then (w2, Inl KeyError) else
     (case filter (\<lambda>r. ip_descricao r = produto_para_devolver) df_itens_pedido of
        [] \<Rightarrow> (w2, Inl IndexError)
      | item_selecionado # rest \<Rightarrow>
     (case number_input (Some 1) (Some (ip_quantidade item_selecionado)) qtd of
        Inl e \<Rightarrow> (w2, Inl e)
      | Inr qtd_devolver \<Rightarrow>
     (let retornar_estoque =
            st_checkbox (retornar_estoque_default estado_produto) retornar_user;
          estado_final = mapa_estado estado_produto
      in case get_db_connection_new flt w2 of
           None \<Rightarrow> (next_tick w2, Inl NameError)
         | Some t0 \<Rightarrow>
             (case finish_tx w2
                     (devolucao_tx flt
                        \<lparr>d_pedido_id = pedido_id_sel,
                         d_produto_id = ip_produto_id item_selecionado,
                         d_quantidade = qtd_devolver,
                         d_estado_produto = estado_final,
                         d_retornou_estoque = retornar_estoque,
                         d_motivo = motivo,
                         d_data_devolucao = data_devolucao_input\<rparr> t0) of
                (w3, Inl e) \<Rightarrow> (w3, Inl e)
              | (w3, Inr atualizou) \<Rightarrow> (clear_cache w3, Inr (Some atualizou)))))))))))"

section \<open>Example data\<close>

definition exemplo_produto :: produto where
  "exemplo_produto =
     \<lparr>p_produto_id = 1, p_codigo_sku = ''SKU-1'', p_descricao = ''Pastilha'',
      p_preco_custo = 4, p_preco_venda = 100, p_estoque_atual = 5\<rparr>"

definition exemplo_db :: database where
  "exemplo_db =
     \<lparr>clientes = [\<lparr>c_cliente_id = 7, c_nome = ''Ana'', c_cpf_cnpj = None\<rparr>],
      produtos = [exemplo_produto], entradas = [], pedidos = [], vendas = [],
      devolucoes = []\<rparr>"

definition exemplo_world :: world where
  "exemplo_world = \<lparr>db = exemplo_db, conn_cached = True, session_vendas = [], tick = 0\<rparr>"

definition exemplo_data :: data_value where
  "exemplo_data = Datetime 2026 1 15 10 30 0"

text \<open>A gateway that raises at one call only.\<close>

definition falha_no_tick :: "nat \<Rightarrow> faults" where
  "falha_no_tick k n = (if n = k then Some OperationalError else None)"

text \<open>
  One session adds three units of the product twice, with five in stock, and registers
  the order.
\<close>

definition carrinho_duplicado :: world where
  "carrinho_duplicado =
     fst (adicionar_item (Some ''Pastilha'') (Some 3) (Some 0)
            (fst (adicionar_item (Some ''Pastilha'') (Some 3) (Some 0) exemplo_world)))"

definition pedido_duplicado :: "world \<times> (error + nat option)" where
  "pedido_duplicado =
     registrar_pedido no_faults (Some ''Ana'') (Some ''Pix'') exemplo_data 1 carrinho_duplicado"






text \<open>
  A completed order of five units of the product, all of the stock, and two returns of
  three units of that line, one after the other, both in perfect state.
\<close>

definition mundo_devolucao :: world where
  "mundo_devolucao =
     \<lparr>db = exemplo_db
        \<lparr>produtos := [exemplo_produto\<lparr>p_estoque_atual := 0\<rparr>],
         pedidos := [\<lparr>o_pedido_id = 1, o_cliente_id = 7, o_data_pedido = exemplo_data,
                      o_valor_total = 500, o_status_pedido = Concluido,
                      o_forma_pagamento = Some ''Pix''\<rparr>],
         vendas := [\<lparr>v_pedido_id = 1, v_produto_id = 1, v_quantidade = 5,
                     v_preco_unitario = 100, v_subtotal = 500, v_desconto = 0\<rparr>]\<rparr>,
      conn_cached = True, session_vendas = [], tick = 0\<rparr>"

definition devolucao_1 :: "world \<times> (error + bool option)" where
  "devolucao_1 =
     confirmar_devolucao no_faults (Some 1) ''Pastilha'' 3 Novo_Perfeito_Estado None
       ''Troca'' (2026, 2, 1) mundo_devolucao"


definition linha_vendida :: item_pedido_row where
  "linha_vendida =
     \<lparr>ip_produto_id = 1, ip_descricao = ''Pastilha'', ip_quantidade = 5,
      ip_preco_unitario = 100\<rparr>"

definition devolucao_anterior :: devolucao where
  "devolucao_anterior =
     \<lparr>d_pedido_id = 1, d_produto_id = 1, d_quantidade = 5, d_estado_produto = ''Novo'',
      d_retornou_estoque = True, d_motivo = ''Troca'', d_data_devolucao = (2026, 1, 20)\<rparr>"

text \<open>Three orders, the second one completed, the others pending.\<close>

definition mundo_pedidos :: world where
  "mundo_pedidos =
     \<lparr>db = exemplo_db
        \<lparr>pedidos :=
           [\<lparr>o_pedido_id = 1, o_cliente_id = 7, o_data_pedido = exemplo_data,
              o_valor_total = 180, o_status_pedido = Pendente, o_forma_pagamento = Some ''Pix''\<rparr>,
            \<lparr>o_pedido_id = 2, o_cliente_id = 7, o_data_pedido = exemplo_data,
              o_valor_total = 100, o_status_pedido = Concluido, o_forma_pagamento = Some ''Pix''\<rparr>,
            \<lparr>o_pedido_id = 3, o_cliente_id = 7, o_data_pedido = exemplo_data,
              o_valor_total = 50, o_status_pedido = Pendente, o_forma_pagamento = None\<rparr>]\<rparr>,
      conn_cached = True, session_vendas = [], tick = 0\<rparr>"

section \<open>Facts about the gateway\<close>

lemma upper_char_not_lower: "upper_char c \<notin> set lower_letters"
  unfolding upper_char_def lower_letters_def upper_letters_def
  by (auto split: option.splits dest!: map_of_SomeD simp: map_of_eq_None_iff)

lemma startswith_set: "startswith s p \<Longrightarrow> c \<in> set p \<Longrightarrow> c \<in> set s"
  unfolding startswith_def by (metis in_set_takeD)

text \<open>
  The text compared with \<^verbatim>\<open>"INSERT INTO Produtos"\<close> has been through
  \<^verbatim>\<open>upper()\<close>, so it holds no lower-case letter and the comparison never succeeds.
\<close>

lemma never_insert_into_produtos: "\<not> startswith (py_upper s) ''INSERT INTO Produtos''"
proof
  assume a: "startswith (py_upper s) ''INSERT INTO Produtos''"
  have "CHR ''r'' \<in> set ''INSERT INTO Produtos''" by simp
  with a have "CHR ''r'' \<in> set (py_upper s)" by (rule startswith_set)
  then obtain c where "upper_char c = CHR ''r''" by (auto simp: py_upper_def)
  moreover have "upper_char c \<notin> set lower_letters" by (rule upper_char_not_lower)
  ultimately show False by (simp add: lower_letters_def)
qed

lemma read_sql_header: "\<not> is_write sql_header"
  unfolding is_write_def by code_simp

lemma read_sql_items: "\<not> is_write sql_items"
  unfolding is_write_def by code_simp

lemma read_sql_pendentes: "\<not> is_write sql_pendentes"
  unfolding is_write_def by code_simp

lemma read_sql_pedidos: "\<not> is_write sql_pedidos"
  unfolding is_write_def by code_simp

lemma read_sql_itens: "\<not> is_write sql_itens"
  unfolding is_write_def by code_simp

lemma write_sql_insert_produto: "is_write sql_insert_produto"
  unfolding is_write_def by code_simp

lemma write_sql_update_preco: "is_write sql_update_preco"
  unfolding is_write_def by code_simp

lemma py_strip_prefix:
  assumes "\<not> is_space c" "\<not> is_space z"
  shows "py_strip (c # s @ [z]) = c # s @ [z]"
  using assms by (simp add: py_strip_def)

lemma write_sql_concluido: "is_write (sql_concluido n)"
proof -
  obtain s where s: "sql_concluido n = CHR ''U'' # ''PDATE'' @ s @ [CHR '')'']"
    by (simp add: sql_concluido_def)
  have "py_strip (sql_concluido n) = sql_concluido n"
    unfolding s using py_strip_prefix[of "CHR ''U''" "CHR '')''" "''PDATE'' @ s"]
    by (simp add: is_space_def py_whitespace_def)
  then show ?thesis
    unfolding is_write_def
    by (simp add: s py_upper_def startswith_any_def startswith_def upper_char_def
          lower_letters_def upper_letters_def)
qed

lemma write_sql_cancelado: "is_write (sql_cancelado n)"
proof -
  obtain s where s: "sql_cancelado n = CHR ''U'' # ''PDATE'' @ s @ [CHR '')'']"
    by (simp add: sql_cancelado_def)
  have "py_strip (sql_cancelado n) = sql_cancelado n"
    unfolding s using py_strip_prefix[of "CHR ''U''" "CHR '')''" "''PDATE'' @ s"]
    by (simp add: is_space_def py_whitespace_def)
  then show ?thesis
    unfolding is_write_def
    by (simp add: s py_upper_def startswith_any_def startswith_def upper_char_def
          lower_letters_def upper_letters_def)
qed

lemma execute_query_read:
  assumes "\<not> is_write sql" and "execute_query flt sql sem fetch w = (w1, r)"
  shows "db w1 = db w \<and> session_vendas w1 = session_vendas w"
  using assms
  by (auto simp: execute_query_def get_db_connection_cached_def next_tick_def Let_def
        split: option.splits error.splits prod.splits if_splits sum.splits)

lemma execute_query_read_no_faults:
  assumes "\<not> is_write sql"
  shows "\<exists>w1. execute_query no_faults sql sem True w = (w1, Inr (QRows (snd (sem (db w))))) \<and>
           db w1 = db w \<and> session_vendas w1 = session_vendas w"
  using assms
  by (auto simp: execute_query_def get_db_connection_cached_def next_tick_def Let_def
        no_faults_def split: option.splits error.splits prod.splits if_splits sum.splits)

lemma execute_query_write:
  assumes "is_write sql" and "execute_query flt sql sem fetch w = (w1, r)"
  shows "session_vendas w1 = session_vendas w \<and>
         ((r = Inr QTrue \<and> db w1 = fst (sem (db w))) \<or> (r \<noteq> Inr QTrue \<and> db w1 = db w))"
  using assms
  by (auto simp: execute_query_def get_db_connection_cached_def next_tick_def Let_def
        never_insert_into_produtos
        split: option.splits error.splits prod.splits if_splits sum.splits)

lemma execute_query_write_no_faults:
  assumes "is_write sql"
  shows "\<exists>w1. execute_query no_faults sql sem fetch w = (w1, Inr QTrue) \<and>
           db w1 = fst (sem (db w)) \<and> session_vendas w1 = session_vendas w"
  using assms
  by (auto simp: execute_query_def get_db_connection_cached_def next_tick_def Let_def
        no_faults_def never_insert_into_produtos
        split: option.splits error.splits prod.splits if_splits sum.splits)

text \<open>No call of \<^verbatim>\<open>execute_query\<close> empties the connection cache.\<close>

lemma execute_query_cached:
  "conn_cached w \<Longrightarrow> conn_cached (fst (execute_query flt sql sem fetch w))"
  by (auto simp: execute_query_def get_db_connection_cached_def next_tick_def Let_def
        never_insert_into_produtos split: option.splits error.splits prod.splits)

lemma cursor_execute_Inr:
  "cursor_execute flt stmt t = Inr t' \<Longrightarrow>
     flt (snd t) = None \<and> t' = (stmt (fst t), Suc (snd t))"
  by (auto simp: cursor_execute_def split: option.splits)

lemma then_do_Inr: "then_do r f = Inr b \<Longrightarrow> \<exists>a. r = Inr a \<and> f a = Inr b"
  by (cases r) (auto simp: then_do_def)

lemmas eval_defs =
  number_input_opt_def number_input_def then_do_def dict_zip_get_def lookup_selected_def
  get_db_connection_new_def no_faults_def finish_tx_def cursor_execute_def conn_commit_def
  clear_cache_def next_tick_def exemplo_world_def exemplo_db_def exemplo_produto_def
  exemplo_data_def

section \<open>The connection cache and product writes\<close>

text \<open>
  Claim C7. A product insert sent through \<^verbatim>\<open>execute_query\<close> is committed and leaves
  the cache as it was: with the cache populated before \<^verbatim>\<open>Salvar Produto\<close>, the
  product is in the table afterwards and the cache is still populated. The same holds after
  a price update and after a purchase, which change the price and the stock of the product.
\<close>

theorem salvar_produto_keeps_cache:
  "salvar_produto no_faults ''Honda'' exemplo_produto
     (exemplo_world\<lparr>db := exemplo_db\<lparr>produtos := []\<rparr>\<rparr>)
     = (\<lparr>db = exemplo_db, conn_cached = True, session_vendas = [], tick = 1\<rparr>, Inr QTrue) \<and>
   conn_cached (fst (atualizar_precos no_faults 5 120 1 exemplo_world)) \<and>
   map p_preco_venda (produtos (db (fst (atualizar_precos no_faults 5 120 1 exemplo_world))))
     = [120] \<and>
   conn_cached (fst (registrar_compra no_faults (Some 3) (Some ''Pastilha'') 10 5
                       (2026, 1, 10) (2026, 1, 12) ''NF-1'' exemplo_world)) \<and>
   map p_estoque_atual
     (produtos (db (fst (registrar_compra no_faults (Some 3) (Some ''Pastilha'') 10 5
                           (2026, 1, 10) (2026, 1, 12) ''NF-1'' exemplo_world))))
     = [15]"
  by (simp add: salvar_produto_def atualizar_precos_def execute_query_def
        get_db_connection_cached_def write_sql_insert_produto write_sql_update_preco
        never_insert_into_produtos insert_produto_def update_precos_def
        registrar_compra_def compra_tx_def select_estoque_custo_def insert_entrada_def
        update_estoque_custo_def Let_def eval_defs)

section \<open>The order transaction\<close>






lemmas pedido_eval_defs =
  adicionar_item_def registrar_pedido_def pedido_tx_def insert_pedido_def insert_venda_def
  venda_of_item_def update_estoque_sub_def falha_no_tick_def

section \<open>Stock after a sale\<close>

text \<open>
  Claim C1. The check of \<^verbatim>\<open>Adicionar Item\<close> compares each line with the stock
  read, and \<^verbatim>\<open>Registrar Pedido\<close> subtracts without a check: with five units in
  stock, two lines of three units are both accepted, the order is registered, and the
  stock of the product is -1.
\<close>

theorem estoque_negativo_apos_pedido:
  "map p_estoque_atual (produtos (db exemplo_world)) = [5] \<and>
   map i_quantidade (session_vendas carrinho_duplicado) = [3, 3] \<and>
   snd pedido_duplicado = Inr (Some 1) \<and>
   map p_estoque_atual (produtos (db (fst pedido_duplicado))) = [-1]"
  by (simp add: pedido_duplicado_def carrinho_duplicado_def pedido_eval_defs eval_defs)

section \<open>Rollback of the order transaction\<close>




section \<open>The weighted average cost of a purchase\<close>







section \<open>Cart lines and the total of an order\<close>





section \<open>The return handler\<close>

lemma execute_query_read_rows:
  assumes "\<not> is_write sql" and "execute_query flt sql sem fetch w = (w1, Inr (QRows rows))"
  shows "rows = snd (sem (db w)) \<and> db w1 = db w \<and> session_vendas w1 = session_vendas w"
  using assms
  by (auto simp: execute_query_def get_db_connection_cached_def next_tick_def Let_def
        split: option.splits error.splits prod.splits if_splits sum.splits)

lemma devolucao_tx_Inr:
  assumes "devolucao_tx flt dev t0 = Inr (b, t')"
  shows "b = d_retornou_estoque dev \<and>
         fst t' = (if b then update_estoque_add (d_quantidade dev) (d_produto_id dev)
                               (insert_devolucao dev (fst t0))
                   else insert_devolucao dev (fst t0))"
  using assms unfolding devolucao_tx_def conn_commit_def
  by (auto dest!: then_do_Inr cursor_execute_Inr split: if_splits)

lemma confirmar_devolucao_unchanged:
  assumes "confirmar_devolucao flt sel descr qtd estado user motivo data w = (w', r)"
      and "\<And>b. r \<noteq> Inr (Some b)"
  shows "db w' = db w"
proof -
  obtain w1 r1 where q1: "execute_query flt sql_pedidos (\<lambda>d. (d, select_pedidos_concluidos d)) True w = (w1, r1)"
    by force
  have d1: "db w1 = db w" using execute_query_read[OF read_sql_pedidos q1] by simp
  show ?thesis
  proof (cases "\<exists>opt opts pid. r1 = Inr (QRows (opt # opts)) \<and> sel = Some pid \<and> pid \<in> set (opt # opts)")
    case False
    with assms(1) q1 d1 show ?thesis
      unfolding confirmar_devolucao_def
      by (auto split: sum.splits query_result.splits list.splits option.splits if_splits)
  next
    case True
    then obtain opt opts pid where r1: "r1 = Inr (QRows (opt # opts))" "sel = Some pid" "pid \<in> set (opt # opts)"
      by blast
    obtain w2 r2 where q2: "execute_query flt sql_itens (\<lambda>d. (d, select_itens_pedido pid d)) True w1 = (w2, r2)"
      by force
    have d2: "db w2 = db w" using execute_query_read[OF read_sql_itens q2] d1 by simp
    from assms q1 r1 q2 d2 show ?thesis
      unfolding confirmar_devolucao_def
      by (auto simp: Let_def finish_tx_def next_tick_def clear_cache_def
           split: sum.splits query_result.splits list.splits option.splits if_splits prod.splits)
  qed
qed

lemma confirmar_devolucao_ok:
  assumes "confirmar_devolucao flt sel descr qtd estado user motivo data w = (w', Inr (Some b))"
  shows "\<exists>pid item rest.
           sel = Some pid \<and> pid \<in> set (select_pedidos_concluidos (db w)) \<and>
           filter (\<lambda>r. ip_descricao r = descr) (select_itens_pedido pid (db w)) = item # rest \<and>
           1 \<le> qtd \<and> qtd \<le> ip_quantidade item \<and>
           b = st_checkbox (retornar_estoque_default estado) user \<and>
           devolucoes (db w') = devolucoes (db w) @
             [\<lparr>d_pedido_id = pid, d_produto_id = ip_produto_id item, d_quantidade = qtd,
               d_estado_produto = mapa_estado estado, d_retornou_estoque = b,
               d_motivo = motivo, d_data_devolucao = data\<rparr>] \<and>
           produtos (db w') =
             (if b then produtos (update_estoque_add qtd (ip_produto_id item) (db w))
              else produtos (db w)) \<and>
           pedidos (db w') = pedidos (db w) \<and> vendas (db w') = vendas (db w)"
proof -
  obtain w1 r1 where q1: "execute_query flt sql_pedidos (\<lambda>d. (d, select_pedidos_concluidos d)) True w = (w1, r1)"
    by force
  from assms q1 obtain opt opts pid where r1: "r1 = Inr (QRows (opt # opts))" "sel = Some pid" "pid \<in> set (opt # opts)"
    unfolding confirmar_devolucao_def
    by (auto split: sum.splits query_result.splits list.splits option.splits if_splits)
  from execute_query_read_rows[OF read_sql_pedidos q1[unfolded r1(1)]]
  have d1: "db w1 = db w" "opt # opts = select_pedidos_concluidos (db w)" by simp_all
  obtain w2 r2 where q2: "execute_query flt sql_itens (\<lambda>d. (d, select_itens_pedido pid d)) True w1 = (w2, r2)"
    by force
  from assms q1 r1 q2 obtain rows item rest where r2: "r2 = Inr (QRows rows)"
    and f: "filter (\<lambda>r. ip_descricao r = descr) rows = item # rest"
    and n: "number_input (Some 1) (Some (ip_quantidade item)) qtd = Inr qtd"
    unfolding confirmar_devolucao_def
    by (auto simp: number_input_def split: sum.splits query_result.splits list.splits option.splits if_splits)
  from execute_query_read_rows[OF read_sql_itens q2[unfolded r2]] d1
  have d2: "db w2 = db w" "rows = select_itens_pedido pid (db w)" by simp_all
  from n have bounds: "1 \<le> qtd" "qtd \<le> ip_quantidade item"
    by (auto simp: number_input_def split: if_splits)
  from assms q1 r1 q2 r2 f n obtain t0 t' where
    c: "get_db_connection_new flt w2 = Some t0" and
    t: "devolucao_tx flt
          \<lparr>d_pedido_id = pid, d_produto_id = ip_produto_id item, d_quantidade = qtd,
            d_estado_produto = mapa_estado estado,
            d_retornou_estoque = st_checkbox (retornar_estoque_default estado) user,
            d_motivo = motivo, d_data_devolucao = data\<rparr> t0 = Inr (b, t')" and
    w': "db w' = fst t'"
    unfolding confirmar_devolucao_def
    by (auto simp: Let_def finish_tx_def clear_cache_def
          split: sum.splits list.splits option.splits if_splits prod.splits)
  from c d2 have t0: "fst t0 = db w" by (auto simp: get_db_connection_new_def split: option.splits)
  from devolucao_tx_Inr[OF t] t0 w' r1 d1 f d2 bounds show ?thesis
    by (auto simp: insert_devolucao_def update_estoque_add_def)
qed


lemma devolucao_tx_fault:
  assumes "snd t0 \<le> k" and "k \<le> snd t0 + (if d_retornou_estoque dev then 2 else 1)"
      and "flt k = Some e"
  shows "\<exists>e'. devolucao_tx flt dev t0 = Inl e'"
proof (cases "flt (snd t0)")
  case (Some a)
  then show ?thesis
    by (simp add: devolucao_tx_def then_do_def cursor_execute_def)
next
  case n0: None
  show ?thesis
  proof (cases "flt (Suc (snd t0))")
    case (Some a)
    with n0 show ?thesis
      by (simp add: devolucao_tx_def then_do_def cursor_execute_def conn_commit_def)
  next
    case n1: None
    from assms n0 n1 have k: "k = Suc (Suc (snd t0))" and r: "d_retornou_estoque dev"
      by (auto split: if_splits simp: le_Suc_eq) 
    with assms(3) n0 n1 show ?thesis
      by (simp add: devolucao_tx_def then_do_def cursor_execute_def conn_commit_def)
  qed
qed

lemmas devolucao_eval_defs =
  confirmar_devolucao_def devolucao_tx_def execute_query_def get_db_connection_cached_def
  read_sql_pedidos read_sql_itens select_pedidos_concluidos_def select_itens_pedido_def
  inner_join_def insert_devolucao_def update_estoque_add_def st_checkbox_def
  retornar_estoque_default_def mapa_estado_def mundo_devolucao_def linha_vendida_def
  devolucao_anterior_def Let_def


lemma mundo_devolucao_linha:
  "filter (\<lambda>r. ip_descricao r = ''Pastilha'') (select_itens_pedido 1 (db mundo_devolucao))
     = linha_vendida # []"
  by (simp add: devolucao_eval_defs eval_defs)

section \<open>The quantity of a return\<close>






section \<open>Returns and the stock\<close>

text \<open>
  Claim C8. The box that sends the item back to stock is ticked by default exactly when
  the state chosen is the perfect one, and the user's own tick replaces the default. When
  the handler succeeds, the flag stored is that of the box, the return is appended to the
  table, and the stock of the product of the line is raised by the quantity returned when
  the flag is set and is left alone when it is not. When the handler ends with an error
  the database is as before; and a fault at any gateway call of the transaction (the
  insert, the update when there is one, the commit) makes the transaction fail.
\<close>

theorem devolucao_retorno_ao_estoque:
  "retornar_estoque_default estado = (estado = Novo_Perfeito_Estado) \<and>
   st_checkbox (retornar_estoque_default estado) None = (estado = Novo_Perfeito_Estado) \<and>
   st_checkbox (retornar_estoque_default estado) (Some x) = x \<and>
   (confirmar_devolucao flt sel descr qtd estado user motivo data w = (w', Inr (Some b)) \<longrightarrow>
      b = st_checkbox (retornar_estoque_default estado) user \<and>
      (\<exists>pid item rest.
          sel = Some pid \<and>
          filter (\<lambda>r. ip_descricao r = descr) (select_itens_pedido pid (db w)) = item # rest \<and>
          devolucoes (db w') = devolucoes (db w) @
            [\<lparr>d_pedido_id = pid, d_produto_id = ip_produto_id item, d_quantidade = qtd,
              d_estado_produto = mapa_estado estado, d_retornou_estoque = b,
              d_motivo = motivo, d_data_devolucao = data\<rparr>] \<and>
          produtos (db w') =
            (if b
             then map (\<lambda>p. if p_produto_id p = ip_produto_id item
                            then p\<lparr>p_estoque_atual := p_estoque_atual p + qtd\<rparr> else p)
                    (produtos (db w))
             else produtos (db w)))) \<and>
   (confirmar_devolucao flt sel descr qtd estado user motivo data w = (w', Inl e) \<longrightarrow>
      db w' = db w) \<and>
   (snd t0 \<le> k \<and> k \<le> snd t0 + (if d_retornou_estoque dev then 2 else 1) \<and>
    flt k = Some e \<longrightarrow> (\<exists>e'. devolucao_tx flt dev t0 = Inl e'))"
proof -
  have p1: "retornar_estoque_default estado = (estado = Novo_Perfeito_Estado)"
    by (simp add: retornar_estoque_default_def)
  have p2: "st_checkbox (retornar_estoque_default estado) None = (estado = Novo_Perfeito_Estado)"
    by (simp add: retornar_estoque_default_def st_checkbox_def)
  have p3: "st_checkbox (retornar_estoque_default estado) (Some x) = x"
    by (simp add: st_checkbox_def)
  have p4: "b = st_checkbox (retornar_estoque_default estado) user \<and>
      (\<exists>pid item rest.
          sel = Some pid \<and>
          filter (\<lambda>r. ip_descricao r = descr) (select_itens_pedido pid (db w)) = item # rest \<and>
          devolucoes (db w') = devolucoes (db w) @
            [\<lparr>d_pedido_id = pid, d_produto_id = ip_produto_id item, d_quantidade = qtd,
              d_estado_produto = mapa_estado estado, d_retornou_estoque = b,
              d_motivo = motivo, d_data_devolucao = data\<rparr>] \<and>
          produtos (db w') =
            (if b
             then map (\<lambda>p. if p_produto_id p = ip_produto_id item
                            then p\<lparr>p_estoque_atual := p_estoque_atual p + qtd\<rparr> else p)
                    (produtos (db w))
             else produtos (db w)))"
    if a: "confirmar_devolucao flt sel descr qtd estado user motivo data w = (w', Inr (Some b))"
  proof -
    from confirmar_devolucao_ok[OF a] obtain pid item rest where
      s: "sel = Some pid" and
      f: "filter (\<lambda>r. ip_descricao r = descr) (select_itens_pedido pid (db w)) = item # rest" and
      b: "b = st_checkbox (retornar_estoque_default estado) user" and
      d: "devolucoes (db w') = devolucoes (db w) @
             [\<lparr>d_pedido_id = pid, d_produto_id = ip_produto_id item, d_quantidade = qtd,
               d_estado_produto = mapa_estado estado, d_retornou_estoque = b,
               d_motivo = motivo, d_data_devolucao = data\<rparr>]" and
      p: "produtos (db w') =
             (if b then produtos (update_estoque_add qtd (ip_produto_id item) (db w))
              else produtos (db w))"
      by blast
    from p have p': "produtos (db w') =
            (if b
             then map (\<lambda>p. if p_produto_id p = ip_produto_id item
                            then p\<lparr>p_estoque_atual := p_estoque_atual p + qtd\<rparr> else p)
                    (produtos (db w))
             else produtos (db w))"
      by (simp add: update_estoque_add_def)
    from s f b d p' show ?thesis by blast
  qed
  have p5: "db w' = db w"
    if "confirmar_devolucao flt sel descr qtd estado user motivo data w = (w', Inl e)"
    using that by (rule confirmar_devolucao_unchanged) simp
  have p6: "\<exists>e'. devolucao_tx flt dev t0 = Inl e'"
    if "snd t0 \<le> k \<and> k \<le> snd t0 + (if d_retornou_estoque dev then 2 else 1) \<and> flt k = Some e"
    using that devolucao_tx_fault[of t0 k dev flt e] by blast
  from p1 p2 p3 p4 p5 p6 show ?thesis by blast
qed

text \<open>
  The first return of the example: perfect state, box left alone, three units; and the
  same return on a gateway whose commit fails.
\<close>

theorem devolucao_retorno_ao_estoque_witness:
  "snd devolucao_1 = Inr (Some True) \<and>
   True = st_checkbox (retornar_estoque_default Novo_Perfeito_Estado) None \<and>
   map d_retornou_estoque (devolucoes (db (fst devolucao_1))) = [True] \<and>
   map p_estoque_atual (produtos (db mundo_devolucao)) = [0] \<and>
   map p_estoque_atual (produtos (db (fst devolucao_1))) = [3] \<and>
   (\<exists>e'. devolucao_tx (falha_no_tick 2) devolucao_anterior (db mundo_devolucao, 0) = Inl e')"
proof -
  have ev: "confirmar_devolucao no_faults (Some 1) ''Pastilha'' 3 Novo_Perfeito_Estado None
              ''Troca'' (2026, 2, 1) mundo_devolucao = (fst devolucao_1, Inr (Some True))"
    by (simp add: devolucao_1_def devolucao_eval_defs eval_defs)
  have s: "snd devolucao_1 = Inr (Some True)"
    by (simp add: devolucao_1_def devolucao_eval_defs eval_defs)
  have p0: "map p_estoque_atual (produtos (db mundo_devolucao)) = [0]"
    "devolucoes (db mundo_devolucao) = []"
    "produtos (db mundo_devolucao) = [exemplo_produto\<lparr>p_estoque_atual := 0\<rparr>]"
    by (simp_all add: devolucao_eval_defs eval_defs)
  have h: "snd (db mundo_devolucao, 0::nat) \<le> 2 \<and>
      2 \<le> snd (db mundo_devolucao, 0::nat) + (if d_retornou_estoque devolucao_anterior then 2 else 1) \<and>
      falha_no_tick 2 2 = Some OperationalError"
    by (simp add: devolucao_anterior_def falha_no_tick_def)
  note t = devolucao_retorno_ao_estoque[where flt = no_faults and sel = "Some 1"
      and descr = "''Pastilha''" and qtd = 3 and estado = Novo_Perfeito_Estado and user = None
      and motivo = "''Troca''" and data = "(2026, 2, 1)" and w = mundo_devolucao
      and w' = "fst devolucao_1" and b = True]
  from t ev have b: "True = st_checkbox (retornar_estoque_default Novo_Perfeito_Estado) None"
    by blast
  from t ev mundo_devolucao_linha obtain item where
    i: "linha_vendida = item" and
    d: "devolucoes (db (fst devolucao_1)) = devolucoes (db mundo_devolucao) @
            [\<lparr>d_pedido_id = 1, d_produto_id = ip_produto_id item, d_quantidade = 3,
              d_estado_produto = mapa_estado Novo_Perfeito_Estado, d_retornou_estoque = True,
              d_motivo = ''Troca'', d_data_devolucao = (2026, 2, 1)\<rparr>]" and
    p: "produtos (db (fst devolucao_1)) =
            map (\<lambda>p. if p_produto_id p = ip_produto_id item
                      then p\<lparr>p_estoque_atual := p_estoque_atual p + 3\<rparr> else p)
              (produtos (db mundo_devolucao))"
    by auto
  from d p0 have d': "map d_retornou_estoque (devolucoes (db (fst devolucao_1))) = [True]"
    by simp
  from p i p0 have p': "map p_estoque_atual (produtos (db (fst devolucao_1))) = [3]"
    by (simp add: linha_vendida_def exemplo_produto_def)
  from devolucao_retorno_ao_estoque[where ?t0.0 = "(db mundo_devolucao, 0)" and k = 2
      and dev = devolucao_anterior and flt = "falha_no_tick 2" and e = OperationalError] h
  have f: "\<exists>e'. devolucao_tx (falha_no_tick 2) devolucao_anterior (db mundo_devolucao, 0) = Inl e'"
    by blast
  from s b d' p0(1) p' f show ?thesis by blast
qed

section \<open>Reading for the coupon\<close>

lemma get_order_details_db:
  assumes "get_order_details_for_coupon flt pid w = (w', r)"
  shows "db w' = db w \<and> session_vendas w' = session_vendas w"
proof -
  obtain w1 r1 where q1: "execute_query flt sql_header (\<lambda>d. (d, select_header pid d)) True w = (w1, r1)"
    by force
  obtain w2 r2 where q2: "execute_query flt sql_items (\<lambda>d. (d, select_items pid d)) True w1 = (w2, r2)"
    by force
  from execute_query_read[OF read_sql_header q1] execute_query_read[OF read_sql_items q2] assms q1 q2
  show ?thesis
    unfolding get_order_details_for_coupon_def
    by (auto split: sum.splits query_result.splits list.splits)
qed

lemma print_coupon_db:
  "db (fst (print_coupon flt pid w)) = db w \<and>
   session_vendas (fst (print_coupon flt pid w)) = session_vendas w"
proof -
  obtain w' r where g: "get_order_details_for_coupon flt pid w = (w', r)" by force
  from get_order_details_db[OF g] g show ?thesis
    by (auto simp: print_coupon_def split: sum.splits)
qed

lemma print_coupon_no_faults:
  "snd (print_coupon no_faults pid w) =
     generate_non_fiscal_coupon pid
       (case select_header pid (db w) of
          [] \<Rightarrow> None
        | header # others \<Rightarrow> Some (header, QRows (select_items pid (db w))))"
proof -
  from execute_query_read_no_faults[OF read_sql_header, of "\<lambda>d. (d, select_header pid d)" w]
  obtain w1 where q1: "execute_query no_faults sql_header (\<lambda>d. (d, select_header pid d)) True w
      = (w1, Inr (QRows (select_header pid (db w))))" and d1: "db w1 = db w" by auto
  from execute_query_read_no_faults[OF read_sql_items, of "\<lambda>d. (d, select_items pid d)" w1] d1
  obtain w2 where q2: "execute_query no_faults sql_items (\<lambda>d. (d, select_items pid d)) True w1
      = (w2, Inr (QRows (select_items pid (db w))))" by auto
  show ?thesis
    by (simp add: print_coupon_def get_order_details_for_coupon_def q1 q2 split: list.splits)
qed

lemma imprimir_cupons_db:
  "db (fst (imprimir_cupons flt pids w)) = db w"
proof (induction pids arbitrary: w)
  case Nil
  then show ?case by simp
next
  case (Cons pid pids)
  obtain w1 r1 where p: "print_coupon flt pid w = (w1, r1)" by force
  with print_coupon_db[of flt pid w] have d1: "db w1 = db w" by simp
  obtain w2 r2 where i: "imprimir_cupons flt pids w1 = (w2, r2)" by force
  with Cons.IH[of w1] d1 have "db w2 = db w" by simp
  with p i d1 show ?case by (auto split: sum.splits)
qed

text \<open>
  Claim C9. Generating the coupon of an order changes neither the database nor the cart,
  whatever the gateway does; and on a gateway that works, generating it a second time
  gives the same text (or the same error) as the first time and the database is still the
  one before the first call.
\<close>

theorem cupom_sem_efeito:
  "db (fst (print_coupon flt pid w)) = db w \<and>
   session_vendas (fst (print_coupon flt pid w)) = session_vendas w \<and>
   snd (print_coupon no_faults pid (fst (print_coupon no_faults pid w))) =
     snd (print_coupon no_faults pid w) \<and>
   db (fst (print_coupon no_faults pid (fst (print_coupon no_faults pid w)))) = db w"
proof -
  have d: "db (fst (print_coupon no_faults pid w)) = db w"
    by (simp add: print_coupon_db)
  have "snd (print_coupon no_faults pid (fst (print_coupon no_faults pid w))) =
     snd (print_coupon no_faults pid w)"
    unfolding print_coupon_no_faults d ..
  then show ?thesis by (simp add: print_coupon_db)
qed

text \<open>For the completed order of the example the coupon is a text, twice the same.\<close>

theorem cupom_sem_efeito_witness:
  "(\<exists>s. snd (print_coupon no_faults 1 mundo_devolucao) = Inr s) \<and>
   snd (print_coupon no_faults 1 (fst (print_coupon no_faults 1 mundo_devolucao))) =
     snd (print_coupon no_faults 1 mundo_devolucao) \<and>
   db (fst (print_coupon no_faults 1 (fst (print_coupon no_faults 1 mundo_devolucao)))) =
     db mundo_devolucao"
proof -
  have "\<exists>s. snd (print_coupon no_faults 1 mundo_devolucao) = Inr s"
    by (simp add: print_coupon_no_faults select_header_def select_items_def left_join_def
          mundo_devolucao_def exemplo_db_def exemplo_produto_def
          generate_non_fiscal_coupon_def coupon_item_def then_do_def Let_def)
  with cupom_sem_efeito[of no_faults 1 mundo_devolucao] show ?thesis by simp
qed

section \<open>Completing and cancelling pending orders\<close>

lemma set_left_join_fst:
  "set (map (\<lambda>(x, y). f x) (filter (\<lambda>(x, y). Q x) (left_join xs ys c))) = f ` {x \<in> set xs. Q x}"
proof -
  have "fst ` set (left_join xs ys c) = set xs"
    by (auto simp: left_join_def image_iff split: list.splits)
  then show ?thesis
    by (auto simp: image_iff split: prod.splits) force+
qed

lemma set_select_pendentes:
  "set (select_pendentes d) = o_pedido_id ` {p \<in> set (pedidos d). o_status_pedido p = Pendente}"
  unfolding select_pendentes_def by (rule set_left_join_fst)

lemma update_status_pending:
  assumes "distinct (map o_pedido_id (pedidos d))"
  shows "pedidos (update_status_in tgt (st_multiselect (select_pendentes d) picks) d) =
         map (\<lambda>p. if o_pedido_id p \<in> set picks \<and> o_status_pedido p = Pendente
                   then p\<lparr>o_status_pedido := tgt\<rparr> else p) (pedidos d)"
proof -
  from assms have inj: "inj_on o_pedido_id (set (pedidos d))" by (simp add: distinct_map)
  have "(o_pedido_id p \<in> set (st_multiselect (select_pendentes d) picks)) =
        (o_pedido_id p \<in> set picks \<and> o_status_pedido p = Pendente)" if "p \<in> set (pedidos d)" for p
    using that inj by (auto simp: st_multiselect_def set_select_pendentes dest: inj_onD)
  then show ?thesis by (simp add: update_status_in_def)
qed

lemma update_status_in_nil: "update_status_in tgt [] d = d"
  by (simp add: update_status_in_def)

lemma pedidos_pendentes_db:
  assumes "pedidos_pendentes flt w = (w1, r)"
  shows "db w1 = db w \<and> (r = Inr [] \<or> r = Inr (select_pendentes (db w)) \<or> (\<exists>e. r = Inl e))"
proof -
  obtain w0 r0 where q: "execute_query flt sql_pendentes (\<lambda>d. (d, select_pendentes d)) True w = (w0, r0)"
    by force
  from execute_query_read[OF read_sql_pendentes q] have d: "db w0 = db w" by simp
  have "rows = select_pendentes (db w)" if "r0 = Inr (QRows rows)" for rows
    using execute_query_read_rows[OF read_sql_pendentes q[unfolded that]] by simp
  with assms q d show ?thesis
    unfolding pedidos_pendentes_def
    by (cases r0) (auto split: query_result.splits)
qed

lemma pedidos_pendentes_no_faults:
  "\<exists>w1. pedidos_pendentes no_faults w = (w1, Inr (select_pendentes (db w))) \<and> db w1 = db w"
  using execute_query_read_no_faults[OF read_sql_pendentes, of "\<lambda>d. (d, select_pendentes d)" w]
  by (auto simp: pedidos_pendentes_def)

lemma st_multiselect_nil: "st_multiselect [] picks = []"
  by (simp add: st_multiselect_def)

lemma marcar_cancelado_db:
  "db (fst (marcar_cancelado flt picks w)) = db w \<or>
   db (fst (marcar_cancelado flt picks w)) =
     update_status_in Cancelado (st_multiselect (select_pendentes (db w)) picks) (db w)"
proof -
  obtain w1 r where p: "pedidos_pendentes flt w = (w1, r)" by force
  note pd = pedidos_pendentes_db[OF p]
  let ?sel = "st_multiselect (select_pendentes (db w)) picks"
  obtain w2 r2 where q: "execute_query flt (sql_cancelado (length ?sel))
      (\<lambda>d. (update_status_in Cancelado ?sel d, [] :: unit list)) False w1 = (w2, r2)" by force
  from execute_query_write[OF write_sql_cancelado q] pd
  have "db w2 = db w \<or> db w2 = update_status_in Cancelado ?sel (db w)" by auto
  with p pd q show ?thesis
    unfolding marcar_cancelado_def
    by (auto simp: Let_def clear_cache_def split: sum.splits list.splits)
qed

lemma marcar_cancelado_no_faults:
  "db (fst (marcar_cancelado no_faults picks w)) =
     update_status_in Cancelado (st_multiselect (select_pendentes (db w)) picks) (db w)"
proof -
  from pedidos_pendentes_no_faults[of w]
  obtain w1 where p: "pedidos_pendentes no_faults w = (w1, Inr (select_pendentes (db w)))"
    and d: "db w1 = db w" by auto
  let ?sel = "st_multiselect (select_pendentes (db w)) picks"
  from execute_query_write_no_faults[OF write_sql_cancelado,
      of "length ?sel" "\<lambda>d. (update_status_in Cancelado ?sel d, [] :: unit list)" False w1] d
  obtain w2 where q: "execute_query no_faults (sql_cancelado (length ?sel))
      (\<lambda>d. (update_status_in Cancelado ?sel d, [] :: unit list)) False w1 = (w2, Inr QTrue)"
    and d2: "db w2 = update_status_in Cancelado ?sel (db w)" by auto
  show ?thesis
    unfolding marcar_cancelado_def
    using p d q d2
    by (auto simp: Let_def clear_cache_def update_status_in_nil st_multiselect_nil split: list.splits)
qed

lemma marcar_concluido_db:
  "db (fst (marcar_concluido flt picks imprimir w)) = db w \<or>
   db (fst (marcar_concluido flt picks imprimir w)) =
     update_status_in Concluido (st_multiselect (select_pendentes (db w)) picks) (db w)"
proof -
  obtain w1 r where p: "pedidos_pendentes flt w = (w1, r)" by force
  note pd = pedidos_pendentes_db[OF p]
  let ?sel = "st_multiselect (select_pendentes (db w)) picks"
  obtain w2 r2 where q: "execute_query flt (sql_concluido (length ?sel))
      (\<lambda>d. (update_status_in Concluido ?sel d, [] :: unit list)) False w1 = (w2, r2)" by force
  from execute_query_write[OF write_sql_concluido q] pd
  have d2: "db w2 = db w \<or> db w2 = update_status_in Concluido ?sel (db w)" by auto
  obtain w3 r3 where i: "imprimir_cupons flt ?sel w2 = (w3, r3)" by force
  with imprimir_cupons_db[of flt ?sel w2] have d3: "db w3 = db w2" by simp
  from p pd q d2 i d3 show ?thesis
    unfolding marcar_concluido_def
    by (auto simp: Let_def clear_cache_def split: sum.splits list.splits)
qed

lemma marcar_concluido_no_faults:
  "db (fst (marcar_concluido no_faults picks imprimir w)) =
     update_status_in Concluido (st_multiselect (select_pendentes (db w)) picks) (db w)"
proof -
  from pedidos_pendentes_no_faults[of w]
  obtain w1 where p: "pedidos_pendentes no_faults w = (w1, Inr (select_pendentes (db w)))"
    and d: "db w1 = db w" by auto
  let ?sel = "st_multiselect (select_pendentes (db w)) picks"
  from execute_query_write_no_faults[OF write_sql_concluido,
      of "length ?sel" "\<lambda>d. (update_status_in Concluido ?sel d, [] :: unit list)" False w1] d
  obtain w2 where q: "execute_query no_faults (sql_concluido (length ?sel))
      (\<lambda>d. (update_status_in Concluido ?sel d, [] :: unit list)) False w1 = (w2, Inr QTrue)"
    and d2: "db w2 = update_status_in Concluido ?sel (db w)" by auto
  obtain w3 r3 where i: "imprimir_cupons no_faults ?sel w2 = (w3, r3)" by force
  with imprimir_cupons_db[of no_faults ?sel w2] have d3: "db w3 = db w2" by simp
  show ?thesis
    unfolding marcar_concluido_def
    using p d q d2 i d3
    by (auto simp: Let_def clear_cache_def update_status_in_nil st_multiselect_nil
          split: list.splits sum.splits)
qed

text \<open>
  Claim C4. With the order keys distinct (the primary key), and on a gateway that works,
  \<^verbatim>\<open>Marcar como CONCLUIDO\<close> and \<^verbatim>\<open>Marcar como CANCELADO\<close> set the status of
  exactly the chosen orders that are pending, and leave every other order as it is, also
  when a key is chosen twice or belongs to an order that is not pending. Whatever the
  gateway does, the orders are either all as before or updated in that way, so an order
  that is completed or cancelled keeps its status; and the stock of no product changes.
\<close>

theorem marcar_pedidos_pendentes:
  assumes "distinct (map o_pedido_id (pedidos (db w)))"
  shows "pedidos (db (fst (marcar_concluido no_faults picks imprimir w))) =
           map (\<lambda>p. if o_pedido_id p \<in> set picks \<and> o_status_pedido p = Pendente
                     then p\<lparr>o_status_pedido := Concluido\<rparr> else p) (pedidos (db w)) \<and>
         pedidos (db (fst (marcar_cancelado no_faults picks w))) =
           map (\<lambda>p. if o_pedido_id p \<in> set picks \<and> o_status_pedido p = Pendente
                     then p\<lparr>o_status_pedido := Cancelado\<rparr> else p) (pedidos (db w)) \<and>
         (pedidos (db (fst (marcar_concluido flt picks imprimir w))) = pedidos (db w) \<or>
          pedidos (db (fst (marcar_concluido flt picks imprimir w))) =
            map (\<lambda>p. if o_pedido_id p \<in> set picks \<and> o_status_pedido p = Pendente
                      then p\<lparr>o_status_pedido := Concluido\<rparr> else p) (pedidos (db w))) \<and>
         (pedidos (db (fst (marcar_cancelado flt picks w))) = pedidos (db w) \<or>
          pedidos (db (fst (marcar_cancelado flt picks w))) =
            map (\<lambda>p. if o_pedido_id p \<in> set picks \<and> o_status_pedido p = Pendente
                      then p\<lparr>o_status_pedido := Cancelado\<rparr> else p) (pedidos (db w))) \<and>
         produtos (db (fst (marcar_concluido flt picks imprimir w))) = produtos (db w) \<and>
         produtos (db (fst (marcar_cancelado flt picks w))) = produtos (db w)"
proof -
  note u = update_status_pending[OF assms, of _ picks]
  have pr: "produtos (update_status_in tgt sel d) = produtos d" for tgt sel d
    by (simp add: update_status_in_def)
  from marcar_concluido_no_faults[of picks imprimir w] u[of Concluido]
  have a: "pedidos (db (fst (marcar_concluido no_faults picks imprimir w))) =
           map (\<lambda>p. if o_pedido_id p \<in> set picks \<and> o_status_pedido p = Pendente
                     then p\<lparr>o_status_pedido := Concluido\<rparr> else p) (pedidos (db w))" by simp
  from marcar_cancelado_no_faults[of picks w] u[of Cancelado]
  have b: "pedidos (db (fst (marcar_cancelado no_faults picks w))) =
           map (\<lambda>p. if o_pedido_id p \<in> set picks \<and> o_status_pedido p = Pendente
                     then p\<lparr>o_status_pedido := Cancelado\<rparr> else p) (pedidos (db w))" by simp
  from marcar_concluido_db[of flt picks imprimir w] u[of Concluido]
  have c: "pedidos (db (fst (marcar_concluido flt picks imprimir w))) = pedidos (db w) \<or>
          pedidos (db (fst (marcar_concluido flt picks imprimir w))) =
            map (\<lambda>p. if o_pedido_id p \<in> set picks \<and> o_status_pedido p = Pendente
                      then p\<lparr>o_status_pedido := Concluido\<rparr> else p) (pedidos (db w))"
    by auto
  from marcar_cancelado_db[of flt picks w] u[of Cancelado]
  have d: "pedidos (db (fst (marcar_cancelado flt picks w))) = pedidos (db w) \<or>
          pedidos (db (fst (marcar_cancelado flt picks w))) =
            map (\<lambda>p. if o_pedido_id p \<in> set picks \<and> o_status_pedido p = Pendente
                      then p\<lparr>o_status_pedido := Cancelado\<rparr> else p) (pedidos (db w))"
    by auto
  from marcar_concluido_db[of flt picks imprimir w]
  have e: "produtos (db (fst (marcar_concluido flt picks imprimir w))) = produtos (db w)"
    by (auto simp: pr)
  from marcar_cancelado_db[of flt picks w]
  have f: "produtos (db (fst (marcar_cancelado flt picks w))) = produtos (db w)"
    by (auto simp: pr)
  from a b c d e f show ?thesis by blast
qed

text \<open>
  The choice of order 1 twice and of the completed order 2: only order 1 changes.
\<close>

theorem marcar_pedidos_pendentes_witness:
  "distinct (map o_pedido_id (pedidos (db mundo_pedidos))) \<and>
   map o_status_pedido (pedidos (db mundo_pedidos)) = [Pendente, Concluido, Pendente] \<and>
   map o_status_pedido (pedidos (db (fst (marcar_cancelado no_faults [1, 1, 2] mundo_pedidos))))
     = [Cancelado, Concluido, Pendente] \<and>
   map o_status_pedido
     (pedidos (db (fst (marcar_concluido no_faults [1, 1, 2] True mundo_pedidos))))
     = [Concluido, Concluido, Pendente]"
proof -
  have h: "distinct (map o_pedido_id (pedidos (db mundo_pedidos)))"
    by (simp add: mundo_pedidos_def)
  have p: "map o_status_pedido (pedidos (db mundo_pedidos)) = [Pendente, Concluido, Pendente]"
    by (simp add: mundo_pedidos_def)
  from marcar_pedidos_pendentes[OF h, of "[1, 1, 2]" True no_faults] p h
  show ?thesis by (simp add: mundo_pedidos_def)
qed

end
